theory Spec2Isabelle
  imports Main
begin

section \<open>Python values and built-ins used by main.py\<close>

text \<open>
  A Python \<open>str\<close> is the list of its code points, each below 256, and a \<open>bytes\<close> value
  the list of its bytes: both are character lists here. Exceptions are values: every
  call into a library that can raise returns \<open>exn + 'a\<close>, with \<open>Inl\<close> the exception, and
  only subclasses of \<open>Exception\<close> are modelled (these are the ones the handler of
  \<open>process_document\<close> names).
\<close>

type_synonym bytes = string

datatype exn =
    HTTPError nat
  | ValueError string
  | IOError string
  | AttributeError string
  | LibraryError string

text \<open>\<open>needle in hay\<close> on strings: \<open>needle\<close> occurs as a contiguous piece of \<open>hay\<close>.\<close>

fun str_contains :: "string \<Rightarrow> string \<Rightarrow> bool" where
  "str_contains needle [] = (needle = [])"
| "str_contains needle (c # cs) =
     (take (length needle) (c # cs) = needle \<or> str_contains needle cs)"

text \<open>
  \<open>str.strip()\<close>: whitespace removed at both ends. Below 256 the whitespace characters
  of \<open>str.isspace\<close> are the code points 9 to 13, 28 to 32, 133 and 160.
\<close>

definition py_isspace :: "char \<Rightarrow> bool" where
  "py_isspace c = (of_char c \<in> {9, 10, 11, 12, 13, 28, 29, 30, 31, 32, 133, 160 :: nat})"

definition py_strip :: "string \<Rightarrow> string" where
  "py_strip s = rev (dropWhile py_isspace (rev (dropWhile py_isspace s)))"

text \<open>
  \<open>str.lower()\<close>: below 256 the upper-case letters are \<open>A\<close> to \<open>Z\<close> (65 to 90) and the
  code points 192 to 222 without 215; each has its lower-case letter 32 further on.
\<close>

definition lower_char :: "char \<Rightarrow> char" where
  "lower_char c =
     (let n = (of_char c :: nat)
      in if (65 \<le> n \<and> n \<le> 90) \<or> (192 \<le> n \<and> n \<le> 222 \<and> n \<noteq> 215)
         then char_of (n + 32) else c)"

definition py_lower :: "string \<Rightarrow> string" where
  "py_lower s = map lower_char s"

text \<open>\<open>str(n)\<close> of a non-negative integer, as the f-string of the processing log prints it.\<close>

fun string_of_nat :: "nat \<Rightarrow> string" where
  "string_of_nat n =
     (if n < 10 then [''0123456789'' ! n]
      else string_of_nat (n div 10) @ [''0123456789'' ! (n mod 10)])"

text \<open>
  \<open>Path(p)\<close> of pathlib, POSIX flavour. The parts of a path are its components that
  are neither empty nor \<open>.\<close>; its root is \<open>/\<close> for a leading slash, \<open>//\<close> for exactly two
  leading slashes. \<open>str(Path(p))\<close> is the root followed by the parts joined by \<open>/\<close>, and
  \<open>.\<close> when there is neither. \<open>Path(p).name\<close> is the last part, and \<open>Path(p).suffix\<close>
  starts at the last dot of the name, when that dot is neither the first nor the last
  character of the name.
\<close>

fun split_sep :: "char \<Rightarrow> string \<Rightarrow> string list" where
  "split_sep sep [] = [[]]"
| "split_sep sep (c # cs) =
     (if c = sep then [] # split_sep sep cs
      else (case split_sep sep cs of
              [] \<Rightarrow> [[c]]
            | w # ws \<Rightarrow> (c # w) # ws))"

fun join_sep :: "string \<Rightarrow> string list \<Rightarrow> string" where
  "join_sep sep [] = []"
| "join_sep sep [w] = w"
| "join_sep sep (w # v # ws) = w @ sep @ join_sep sep (v # ws)"

definition path_parts :: "string \<Rightarrow> string list" where
  "path_parts p = filter (\<lambda>part. part \<noteq> [] \<and> part \<noteq> ''.'') (split_sep (CHR ''/'') p)"

definition path_root :: "string \<Rightarrow> string" where
  "path_root p =
     (if take 1 p \<noteq> ''/'' then []
      else if take 2 p = ''//'' \<and> take 3 p \<noteq> ''///'' then ''//''
      else ''/'')"

definition path_str :: "string \<Rightarrow> string" where
  "path_str p =
     (if path_root p = [] \<and> path_parts p = [] then ''.''
      else path_root p @ join_sep ''/'' (path_parts p))"

definition path_name :: "string \<Rightarrow> string" where
  "path_name p =
     (case rev (path_parts p) of
        [] \<Rightarrow> []
      | name # _ \<Rightarrow> name)"

definition path_suffix :: "string \<Rightarrow> string" where
  "path_suffix p =
     (let name = path_name p;
          k = length (takeWhile (\<lambda>c. c \<noteq> CHR ''.'') (rev name))
      in if k < length name \<and> 0 < length name - 1 - k \<and> 0 < k
         then drop (length name - 1 - k) name
         else [])"

text \<open>\<open>os.path.join(a, b)\<close> for two components, POSIX flavour.\<close>

definition os_path_join :: "string \<Rightarrow> string \<Rightarrow> string" where
  "os_path_join a b =
     (if take 1 b = ''/'' then b
      else if a = [] \<or> take 1 (rev a) = ''/'' then a @ b
      else a @ ''/'' @ b)"

section \<open>The libraries main.py calls\<close>

text \<open>
  The response of \<open>requests.get(..., stream=True)\<close>: the status is known when the call
  returns, the body is read when \<open>response.content\<close> is first used, and that read can
  raise. \<open>Response.raise_for_status\<close> raises \<open>HTTPError\<close> for a client error (4xx) or a
  server error (5xx) status and returns otherwise.
\<close>

record http_response =
  status_code :: nat
  content :: "exn + bytes"

definition raise_for_status :: "http_response \<Rightarrow> exn option" where
  "raise_for_status response =
     (if 400 \<le> status_code response \<and> status_code response < 500
        then Some (HTTPError (status_code response))
      else if 500 \<le> status_code response \<and> status_code response < 600
        then Some (HTTPError (status_code response))
      else None)"

text \<open>
  What the generator returned by \<open>stream_generate\<close> does when the \<open>for\<close> loop asks for
  its next item: it yields an item (of which the loop reads the \<open>text\<close>) or raises. A
  generator is the list of what it does, in order, until it is exhausted; nothing
  comes after a \<open>Raise\<close>.
\<close>

datatype gen_item = Yield string | Raise exn

text \<open>The calls the export makes on the document.\<close>

datatype export_call = ExportToMarkdown | SaveAsHtml | ExportToDict

text \<open>
  Everything else main.py reaches through its imports is a parameter of the model:
  the URL parser, the HTTP client, the PDF rasteriser and the image decoder, the
  model runtime (loading, prompt template, and the generator of a page, which is
  given \<open>max_tokens\<close>), the docling document (assembly from the per-page DocTags and
  the three exports), the traceback printer, the temporary names the operating
  system hands out, and the UTF-8 encoder. \<open>'img\<close> is a page image, \<open>'dt\<close> a
  \<open>DocTagsDocument\<close>, \<open>'doc\<close> a \<open>DoclingDocument\<close>.
\<close>

record ('img, 'dt, 'doc) env =
  urlparse_scheme :: "string \<Rightarrow> exn + string"
  requests_get :: "string \<Rightarrow> bool \<Rightarrow> nat \<Rightarrow> exn + http_response"
  convert_from_bytes :: "bytes \<Rightarrow> exn + 'img list"
  image_open :: "bytes \<Rightarrow> exn + 'img"
  load_model :: "exn option"
  apply_chat_template :: "string \<Rightarrow> nat \<Rightarrow> exn + string"
  stream_generate :: "string \<Rightarrow> 'img \<Rightarrow> nat \<Rightarrow> gen_item list"
  from_doctags_and_image_pairs :: "string list \<Rightarrow> 'img list \<Rightarrow> exn + 'dt"
  load_from_doctags :: "string \<Rightarrow> 'dt \<Rightarrow> exn + 'doc"
  export_to_markdown :: "'doc \<Rightarrow> exn + string"
  save_as_html :: "'doc \<Rightarrow> exn + string"
  export_to_dict_json :: "'doc \<Rightarrow> nat \<Rightarrow> exn + string"
  str_of_exn :: "exn \<Rightarrow> string"
  format_exc :: "exn \<Rightarrow> string"
  mkdtemp :: "string"
  open_wb :: "string \<Rightarrow> exn option"
  temp_file_stem :: "string"
  encode_utf8 :: "string \<Rightarrow> bytes"

text \<open>
  The local file system: the bytes stored under each path. The system resolves a
  path whatever its empty and \<open>.\<close> components are, so a file is kept under its path
  as \<open>path_str\<close> writes it.
\<close>

type_synonym fs = "string \<Rightarrow> bytes option"

text \<open>
  \<open>convert_from_path\<close> and \<open>Image.open\<close> on a path read the file and decode its bytes;
  a path with no file raises.
\<close>

definition convert_from_path ::
  "('img, 'dt, 'doc) env \<Rightarrow> fs \<Rightarrow> string \<Rightarrow> exn + 'img list" where
  "convert_from_path env files p =
     (case files (path_str p) of
        None \<Rightarrow> Inl (IOError p)
      | Some data \<Rightarrow> convert_from_bytes env data)"

definition image_open_path ::
  "('img, 'dt, 'doc) env \<Rightarrow> fs \<Rightarrow> string \<Rightarrow> exn + 'img" where
  "image_open_path env files p =
     (case files (path_str p) of
        None \<Rightarrow> Inl (IOError p)
      | Some data \<Rightarrow> image_open env data)"

section \<open>load_input_resource\<close>

text \<open>
  The calls the loader makes to the outside, in order, each with the arguments it is
  given: the trace tells which way a reference was handled. \<open>urlparse\<close> raises
  \<open>ValueError\<close> on a reference it rejects, and the loader has no handler for it. In the
  local branch \<open>file_path\<close> is \<open>Path(input_path)\<close>: the converter is given
  \<open>str(file_path)\<close> and \<open>Image.open\<close> the path itself, which it opens under that same
  string.
\<close>

datatype io_call =
    HttpGet string bool nat
  | ConvertFromBytes bytes
  | ImageOpenBytes bytes
  | ConvertFromPath string
  | ImageOpenPath string

definition load_input_resource ::
  "('img, 'dt, 'doc) env \<Rightarrow> fs \<Rightarrow> string \<Rightarrow> io_call list \<times> (exn + 'img list)" where
  "load_input_resource env files input_path =
     (case urlparse_scheme env input_path of
        Inl e \<Rightarrow> ([], Inl e)
      | Inr scheme \<Rightarrow>
     (if scheme \<noteq> [] then
        (case requests_get env input_path True 10 of
           Inl e \<Rightarrow> ([HttpGet input_path True 10], Inl e)
         | Inr response \<Rightarrow>
             (case raise_for_status response of
                Some e \<Rightarrow> ([HttpGet input_path True 10], Inl e)
              | None \<Rightarrow>
                  (case content response of
                     Inl e \<Rightarrow> ([HttpGet input_path True 10], Inl e)
                   | Inr body \<Rightarrow>
                       (if take 4 body = ''%PDF'' then
                          ([HttpGet input_path True 10, ConvertFromBytes body],
                           (case convert_from_bytes env body of
                              Inl e \<Rightarrow> Inl e
                            | Inr pdf_images \<Rightarrow> Inr ([] @ pdf_images)))
                        else
                          ([HttpGet input_path True 10, ImageOpenBytes body],
                           (case image_open env body of
                              Inl e \<Rightarrow> Inl e
                            | Inr img \<Rightarrow> Inr ([] @ [img])))))))
      else
        (let file_path = path_str input_path
         in if py_lower (path_suffix input_path) = ''.pdf'' then
              ([ConvertFromPath file_path],
               (case convert_from_path env files file_path of
                  Inl e \<Rightarrow> Inl e
                | Inr pdf_images \<Rightarrow> Inr ([] @ pdf_images)))
            else
              ([ImageOpenPath file_path],
               (case image_open_path env files file_path of
                  Inl e \<Rightarrow> Inl e
                | Inr img \<Rightarrow> Inr ([] @ [img]))))))"

section \<open>process_document\<close>

subsection \<open>The streaming loop of one page\<close>

text \<open>
  \<open>for token in stream_generate(..., max_tokens=4096): output += token.text; if
  "</doctag>" in token.text: break\<close>. The loop has no bound of its own: it goes through
  the items of the generator until one of them contains the closing doctag, the
  generator raises, or the generator is exhausted. It returns the accumulated output
  and the number of items it drew.
\<close>

fun stream_loop :: "gen_item list \<Rightarrow> nat \<Rightarrow> string \<Rightarrow> exn + (string \<times> nat)" where
  "stream_loop [] i output = Inr (output, i)"
| "stream_loop (Raise e # later) i output = Inl e"
| "stream_loop (Yield text # later) i output =
     (if str_contains ''</doctag>'' text then Inr (output @ text, Suc i)
      else stream_loop later (Suc i) (output @ text))"

definition page_output :: "('img, 'dt, 'doc) env \<Rightarrow> string \<Rightarrow> 'img \<Rightarrow> exn + (string \<times> nat)" where
  "page_output env formatted_prompt img =
     stream_loop (stream_generate env formatted_prompt img 4096) 0 []"

subsection \<open>The loop over the pages\<close>

record 'img loop_state =
  all_outputs :: "string list"
  all_images :: "'img list"
  processing_log :: string

text \<open>
  \<open>for i, image in enumerate(images)\<close>: \<open>n_pages\<close> is \<open>len(images)\<close>, \<open>i\<close> the index of the
  first page still to do. An exception of the generator leaves the loop.
\<close>

fun run_pages ::
  "('img, 'dt, 'doc) env \<Rightarrow> string \<Rightarrow> nat \<Rightarrow> nat \<Rightarrow> 'img list \<Rightarrow> 'img loop_state
     \<Rightarrow> exn + 'img loop_state" where
  "run_pages env formatted_prompt n_pages i [] st = Inr st"
| "run_pages env formatted_prompt n_pages i (img # rest) st =
     (let st1 = st\<lparr>processing_log := processing_log st
                      @ ''Processing page '' @ string_of_nat (i + 1) @ ''/''
                      @ string_of_nat n_pages @ [CHR ''.'', CHR ''.'', CHR ''.'', CHR 10, CHR 10]
                      @ ''DocTags:'' @ [CHR 10, CHR 10]\<rparr>;
          st2 = st1\<lparr>all_images := all_images st1 @ [img]\<rparr>
      in case page_output env formatted_prompt img of
           Inl e \<Rightarrow> Inl e
         | Inr (output, drawn) \<Rightarrow>
             run_pages env formatted_prompt n_pages (Suc i) rest
               (st2\<lparr>all_outputs := all_outputs st2 @ [output],
                    processing_log := processing_log st2 @ output @ [CHR 10, CHR 10]\<rparr>))"

subsection \<open>The input source\<close>

text \<open>
  What Gradio may hand over as \<open>file_obj\<close>: an object with a \<open>read\<close> method (its \<open>name\<close>
  attribute, if it has one, and the bytes \<open>read()\<close> returns), a path string, an object
  without \<open>read\<close> that has a \<open>name\<close>, or one that has neither.
\<close>

datatype upload =
    FileLike "string option" bytes
  | PathStr string
  | NamedObj string
  | PlainObj

text \<open>The three values \<open>process_document\<close> returns: result, preview image, log.\<close>

type_synonym 'img outcome = "string \<times> 'img option \<times> string option"

text \<open>
  Lines 78 to 105: the path to load and the file system after the upload was saved;
  or the early return when there is neither a file nor a URL.
\<close>

definition input_source ::
  "('img, 'dt, 'doc) env \<Rightarrow> fs \<Rightarrow> upload option \<Rightarrow> string
     \<Rightarrow> exn + ('img outcome + string \<times> fs)" where
  "input_source env files file_obj url_input =
     (case file_obj of
        Some obj \<Rightarrow>
          (let temp_dir = mkdtemp env;
               file_name = (case obj of
                              FileLike (Some n) _ \<Rightarrow> n
                            | NamedObj n \<Rightarrow> n
                            | _ \<Rightarrow> ''uploaded_file'');
               temp_path = os_path_join temp_dir file_name
           in case obj of
                FileLike _ data \<Rightarrow>
                  (case open_wb env temp_path of
                     Some e \<Rightarrow> Inl e
                   | None \<Rightarrow> Inr (Inr (temp_path, files(path_str temp_path \<mapsto> data))))
              | PathStr s \<Rightarrow> Inr (Inr (s, files))
              | NamedObj n \<Rightarrow> Inr (Inr (n, files))
              | PlainObj \<Rightarrow> Inl (AttributeError ''name''))
      | None \<Rightarrow>
          (if py_strip url_input \<noteq> [] then Inr (Inr (py_strip url_input, files))
           else Inr (Inl (''Please provide either a file upload or a URL'', None, None))))"

subsection \<open>From the inputs to the document\<close>

text \<open>
  Lines 74 to 141: the model is loaded, the input resolved and loaded, every page
  generated, and the document assembled from \<open>all_outputs\<close> and \<open>all_images\<close>. The value
  is an exception, an early return, or the document with the images and the log.
\<close>

definition build_document ::
  "('img, 'dt, 'doc) env \<Rightarrow> fs \<Rightarrow> upload option \<Rightarrow> string
     \<Rightarrow> exn + ('img outcome + 'doc \<times> 'img list \<times> string)" where
  "build_document env files file_obj url_input =
     (case load_model env of
        Some e \<Rightarrow> Inl e
      | None \<Rightarrow>
     (case input_source env files file_obj url_input of
        Inl e \<Rightarrow> Inl e
      | Inr (Inl early) \<Rightarrow> Inr (Inl early)
      | Inr (Inr (input_path, files1)) \<Rightarrow>
     (case snd (load_input_resource env files1 input_path) of
        Inl e \<Rightarrow> Inl e
      | Inr images \<Rightarrow>
     (if images = [] then
        Inr (Inl (''No images could be extracted from the provided file or URL'', None, None))
      else
     (case apply_chat_template env ''Convert this page to docling.'' 1 of
        Inl e \<Rightarrow> Inl e
      | Inr formatted_prompt \<Rightarrow>
     (case run_pages env formatted_prompt (length images) 0 images
             \<lparr>all_outputs = [], all_images = [], processing_log = []\<rparr> of
        Inl e \<Rightarrow> Inl e
      | Inr st \<Rightarrow>
     (case from_doctags_and_image_pairs env (all_outputs st) (all_images st) of
        Inl e \<Rightarrow> Inl e
      | Inr doctags_doc \<Rightarrow>
     (case load_from_doctags env ''ProcessedDocument'' doctags_doc of
        Inl e \<Rightarrow> Inl e
      | Inr doc \<Rightarrow> Inr (Inr (doc, images, processing_log st))))))))))"

subsection \<open>The export and the returned values\<close>

text \<open>
  Lines 143 to 156: the export chosen by \<open>export_format\<close>, with the calls it makes on the
  document. \<open>save_as_html\<close> stands for saving the HTML to a temporary file and reading
  the file back, \<open>export_to_dict_json\<close> for \<open>json.dumps(doc.export_to_dict(), indent=4)\<close>.
\<close>

definition export_document ::
  "('img, 'dt, 'doc) env \<Rightarrow> 'doc \<Rightarrow> string \<Rightarrow> export_call list \<times> (exn + string)" where
  "export_document env doc export_format =
     (if export_format = ''Markdown'' then ([ExportToMarkdown], export_to_markdown env doc)
      else if export_format = ''HTML'' then ([SaveAsHtml], save_as_html env doc)
      else if export_format = ''JSON'' then ([ExportToDict], export_to_dict_json env doc 4)
      else ([], Inr ''Invalid export format selected''))"

text \<open>The body of the \<open>try\<close>: its value, or the exception that leaves it.\<close>

definition process_try ::
  "('img, 'dt, 'doc) env \<Rightarrow> fs \<Rightarrow> upload option \<Rightarrow> string \<Rightarrow> string \<Rightarrow> exn + 'img outcome" where
  "process_try env files file_obj url_input export_format =
     (case build_document env files file_obj url_input of
        Inl e \<Rightarrow> Inl e
      | Inr (Inl early) \<Rightarrow> Inr early
      | Inr (Inr (doc, images, log)) \<Rightarrow>
          (case snd (export_document env doc export_format) of
             Inl e \<Rightarrow> Inl e
           | Inr result \<Rightarrow>
               Inr (result, (case images of [] \<Rightarrow> None | img # _ \<Rightarrow> Some img), Some log)))"

text \<open>\<open>try: ... except Exception as e: ...\<close>\<close>

definition process_document ::
  "('img, 'dt, 'doc) env \<Rightarrow> fs \<Rightarrow> upload option \<Rightarrow> string \<Rightarrow> string \<Rightarrow> 'img outcome" where
  "process_document env files file_obj url_input export_format =
     (case process_try env files file_obj url_input export_format of
        Inr returned \<Rightarrow> returned
      | Inl e \<Rightarrow>
          (let error_details = format_exc env e
           in (''Error processing document: '' @ str_of_exn env e @ [CHR 10, CHR 10]
                 @ ''Details:'' @ [CHR 10] @ error_details,
               None, Some error_details)))"

section \<open>prepare_download\<close>

definition download_ext :: "string \<Rightarrow> string" where
  "download_ext export_format =
     (if export_format = ''Markdown'' then ''.md''
      else if export_format = ''HTML'' then ''.html''
      else if export_format = ''JSON'' then ''.json''
      else ''.txt'')"

text \<open>
  \<open>NamedTemporaryFile(delete=False, suffix=ext)\<close> makes a file whose name is the stem
  the system picks followed by the suffix; the encoded result is written to it. The
  value is the pair of updates (both carry the file name) and the file system after.
\<close>

definition prepare_download ::
  "('img, 'dt, 'doc) env \<Rightarrow> fs \<Rightarrow> string \<Rightarrow> string \<Rightarrow> (string \<times> string) \<times> fs" where
  "prepare_download env files result export_format =
     (let ext = download_ext export_format;
          temp_file_name = temp_file_stem env @ ext
      in ((temp_file_name, temp_file_name),
          files(temp_file_name \<mapsto> encode_utf8 env result)))"

section \<open>The document assembler of the specification\<close>

text \<open>
  Modelled from the spec: the Document Assembler, which main.py takes from docling
  (\<open>DocTagsDocument.from_doctags_and_image_pairs\<close> and \<open>DoclingDocument.load_from_doctags\<close>)
  and whose code is not among the sources. After sections 3 and 4.3 of the
  specification: it pairs each page output with the image at the same position and
  fails when the counts differ; it parses the tagged text of each page into the
  elements of that page and fails when a page is malformed; it concatenates the
  elements of all pages, in page order, each element with the index of its page,
  and puts a page-break marker between two pages; the tree has a name and the page
  images. The parser of the tag grammar is a parameter.
\<close>

datatype 'el document_element = Content nat 'el | PageBreak

record ('img, 'el) document_tree =
  tree_name :: string
  tree_elements :: "'el document_element list"
  tree_pages :: "'img list"

definition pair_pages :: "string list \<Rightarrow> 'img list \<Rightarrow> exn + (string \<times> 'img) list" where
  "pair_pages outputs images =
     (if length outputs = length images then Inr (zip outputs images)
      else Inl (LibraryError ''CountMismatch''))"

fun parse_pages ::
  "(string \<Rightarrow> 'img \<Rightarrow> exn + 'el list) \<Rightarrow> (string \<times> 'img) list \<Rightarrow> exn + 'el list list" where
  "parse_pages parse_page [] = Inr []"
| "parse_pages parse_page ((output, img) # later) =
     (case parse_page output img of
        Inl e \<Rightarrow> Inl e
      | Inr forest \<Rightarrow>
          (case parse_pages parse_page later of
             Inl e \<Rightarrow> Inl e
           | Inr forests \<Rightarrow> Inr (forest # forests)))"

fun page_sequence :: "nat \<Rightarrow> 'el list list \<Rightarrow> 'el document_element list" where
  "page_sequence i [] = []"
| "page_sequence i [forest] = map (Content i) forest"
| "page_sequence i (forest # next_forest # later) =
     map (Content i) forest @ PageBreak # page_sequence (Suc i) (next_forest # later)"

definition assemble_tree ::
  "(string \<Rightarrow> 'img \<Rightarrow> exn + 'el list) \<Rightarrow> string \<Rightarrow> (string \<times> 'img) list
     \<Rightarrow> exn + ('img, 'el) document_tree" where
  "assemble_tree parse_page name pairs =
     (case parse_pages parse_page pairs of
        Inl e \<Rightarrow> Inl e
      | Inr forests \<Rightarrow>
          Inr \<lparr>tree_name = name,
               tree_elements = page_sequence 0 forests,
               tree_pages = map snd pairs\<rparr>)"

section \<open>Notions used to state the properties\<close>

text \<open>The text of an item of a generator (empty when it raises).\<close>

definition item_text :: "gen_item \<Rightarrow> string" where
  "item_text item = (case item of Yield text \<Rightarrow> text | Raise e \<Rightarrow> [])"

text \<open>An item that lets the loop go on: a token whose text does not contain the closing doctag.\<close>

definition plain_token :: "gen_item \<Rightarrow> bool" where
  "plain_token item =
     (case item of Yield text \<Rightarrow> \<not> str_contains ''</doctag>'' text | Raise e \<Rightarrow> False)"

text \<open>
  The state of the page loop after page \<open>i\<close> (counted from 0) of \<open>n_pages\<close> was done
  with the output \<open>output\<close>: the image and the output appended, the log extended.
\<close>

definition page_done ::
  "'img loop_state \<Rightarrow> nat \<Rightarrow> nat \<Rightarrow> 'img \<Rightarrow> string \<Rightarrow> 'img loop_state" where
  "page_done st i n_pages img output =
     st\<lparr>all_images := all_images st @ [img],
        all_outputs := all_outputs st @ [output],
        processing_log := processing_log st
          @ ''Processing page '' @ string_of_nat (i + 1) @ ''/''
          @ string_of_nat n_pages @ [CHR ''.'', CHR ''.'', CHR ''.'', CHR 10, CHR 10]
          @ ''DocTags:'' @ [CHR 10, CHR 10] @ output @ [CHR 10, CHR 10]\<rparr>"

text \<open>The text of the first component when an exception was caught.\<close>

definition error_text :: "('img, 'dt, 'doc) env \<Rightarrow> exn \<Rightarrow> string" where
  "error_text env e =
     ''Error processing document: '' @ str_of_exn env e @ [CHR 10, CHR 10]
       @ ''Details:'' @ [CHR 10] @ format_exc env e"

text \<open>The elements of the pages \<open>i, i + 1, ...\<close> in page order, without page breaks.\<close>

fun page_contents :: "nat \<Rightarrow> 'el list list \<Rightarrow> 'el document_element list" where
  "page_contents i [] = []"
| "page_contents i (forest # later) = map (Content i) forest @ page_contents (Suc i) later"

section \<open>A sample environment\<close>

text \<open>
  A small world to run the definitions in. The scheme of a reference is the text
  before its first colon when that text is made of letters, digits, \<open>+\<close>, \<open>-\<close> and \<open>.\<close>;
  a host with one square bracket and not the other is rejected, as \<open>urlparse\<close> does.
  A page image is named by a string; the bytes \<open>%PDF|a|b\<close> are a PDF with the pages \<open>a\<close>
  and \<open>b\<close>, and any bytes without that signature decode to the image they name. The
  generator of a page depends on the name of the page: \<open>runaway\<close> never closes its
  doctag and yields \<open>max_tokens\<close> tokens and one closing item, \<open>crash\<close> raises after
  one token, \<open>split\<close> closes the doctag across two tokens, \<open>after\<close> raises when asked
  for more after the closing doctag, \<open>blank\<close> yields nothing. The web answers for the addresses of
  \<open>sample_web\<close> and times out for every other one; the JSON export raises on a page
  whose doctag is not closed.
\<close>

definition sample_scheme :: "string \<Rightarrow> exn + string" where
  "sample_scheme url =
     (let pre = takeWhile (\<lambda>c. c \<noteq> CHR '':'') url;
          found = (length pre < length url \<and> pre \<noteq> []
            \<and> list_all (\<lambda>c. c \<in> set ''abcdefghijklmnopqrstuvwxyzABCDEFGHIJKLMNOPQRSTUVWXYZ0123456789+-.'') pre);
          after = (if found then drop (length pre + 1) url else url);
          netloc = (if take 2 after = ''//''
                    then takeWhile (\<lambda>c. c \<notin> set ''/?#'') (drop 2 after) else [])
      in if (CHR ''['' \<in> set netloc) \<noteq> (CHR '']'' \<in> set netloc)
         then Inl (ValueError ''Invalid IPv6 URL'')
         else Inr (if found then py_lower pre else []))"

definition sample_web :: "(string \<times> nat \<times> bytes) list" where
  "sample_web =
     [(''https://example.org/report.png'', 200, ''%PDF|hello|split''),
      (''https://example.org/paper.pdf'', 200, ''hello''),
      (''https://example.org/missing.pdf'', 404, ''%PDF|hello''),
      (''https://example.org/choices'', 300, ''hello''),
      (''https://example.org/crash.png'', 200, ''crash''),
      (''https://example.org/open.png'', 200, ''open''),
      (''https://example.org/book.pdf'', 200, ''%PDF|hello|open|split''),
      (''https://example.org/blank.png'', 200, ''blank''),
      (''https://example.org/empty.pdf'', 200, ''%PDF'')]"

definition sample_get :: "string \<Rightarrow> bool \<Rightarrow> nat \<Rightarrow> exn + http_response" where
  "sample_get url stream timeout =
     (case map_of sample_web url of
        Some (status, body) \<Rightarrow> Inr \<lparr>status_code = status, content = Inr body\<rparr>
      | None \<Rightarrow> Inl (LibraryError ''ConnectTimeout''))"

definition sample_convert :: "bytes \<Rightarrow> exn + string list" where
  "sample_convert data =
     (if take 4 data = ''%PDF'' then Inr (tl (split_sep (CHR ''|'') data))
      else Inl (LibraryError ''PDFPageCountError''))"

definition sample_image_open :: "bytes \<Rightarrow> exn + string" where
  "sample_image_open data =
     (if take 4 data = ''%PDF'' then Inl (LibraryError ''UnidentifiedImageError'')
      else Inr data)"

definition sample_stream :: "string \<Rightarrow> string \<Rightarrow> nat \<Rightarrow> gen_item list" where
  "sample_stream formatted_prompt img max_tokens =
     (if img = ''hello'' then [Yield ''<doctag>'', Yield ''Hello'', Yield ''</doctag>'', Yield ''<extra>'']
      else if img = ''split'' then [Yield ''</doc'', Yield ''tag>'', Yield ''<extra>'']
      else if img = ''after'' then [Yield ''<doctag>a</doctag>'', Raise (LibraryError ''engine'')]
      else if img = ''crash'' then [Yield ''<doctag>'', Raise (LibraryError ''engine'')]
      else if img = ''runaway'' then replicate (Suc max_tokens) (Yield ''x'')
      else if img = ''blank'' then []
      else [Yield ''<doctag>'', Yield img])"

definition sample_files :: fs where
  "sample_files =
     [''report.png'' \<mapsto> ''%PDF|hello|split'',
      ''scan.pdf'' \<mapsto> ''hello'',
      ''book.PDF'' \<mapsto> ''%PDF|hello|split|hello'']"

definition sample_assemble :: "string list \<Rightarrow> string list \<Rightarrow> exn + (string \<times> string) list" where
  "sample_assemble outputs images =
     (if length outputs = length images then Inr (zip outputs images)
      else Inl (LibraryError ''CountMismatch''))"

text \<open>
  The sample world around a given assembler and given exports of the document.
\<close>

definition sample_world ::
  "(string list \<Rightarrow> string list \<Rightarrow> exn + 'dt) \<Rightarrow> (string \<Rightarrow> 'dt \<Rightarrow> exn + 'doc)
     \<Rightarrow> ('doc \<Rightarrow> exn + string) \<Rightarrow> ('doc \<Rightarrow> exn + string) \<Rightarrow> ('doc \<Rightarrow> nat \<Rightarrow> exn + string)
     \<Rightarrow> (string, 'dt, 'doc) env" where
  "sample_world pairs load to_markdown to_html to_json =
     \<lparr>urlparse_scheme = sample_scheme,
      requests_get = sample_get,
      convert_from_bytes = sample_convert,
      image_open = sample_image_open,
      load_model = None,
      apply_chat_template = (\<lambda>prompt num_images. Inr (''<user>'' @ prompt)),
      stream_generate = sample_stream,
      from_doctags_and_image_pairs = pairs,
      load_from_doctags = load,
      export_to_markdown = to_markdown,
      save_as_html = to_html,
      export_to_dict_json = to_json,
      str_of_exn = (\<lambda>e. case e of
                           HTTPError n \<Rightarrow> string_of_nat n
                         | ValueError m \<Rightarrow> m
                         | IOError m \<Rightarrow> m
                         | AttributeError m \<Rightarrow> m
                         | LibraryError m \<Rightarrow> m),
      format_exc = (\<lambda>e. ''Traceback''),
      mkdtemp = ''/tmp/tmpdir'',
      open_wb = (\<lambda>p. None),
      temp_file_stem = ''/tmp/tmpfile'',
      encode_utf8 = (\<lambda>s. s)\<rparr>"

definition sample_env :: "(string, (string \<times> string) list, (string \<times> string) list) env" where
  "sample_env =
     sample_world sample_assemble (\<lambda>name doctags_doc. Inr doctags_doc)
       (\<lambda>doc. Inr (concat (map fst doc)))
       (\<lambda>doc. Inr (''<html>'' @ concat (map fst doc) @ ''</html>''))
       (\<lambda>doc indent.
          if list_all (\<lambda>(output, img). str_contains ''</doctag>'' output) doc
          then Inr (''{'' @ concat (map fst doc) @ ''}'')
          else Inl (LibraryError ''MalformedTag''))"

text \<open>The same world with a model that fails to load.\<close>

definition broken_env :: "(string, (string \<times> string) list, (string \<times> string) list) env" where
  "broken_env = sample_env\<lparr>load_model := Some (LibraryError ''weights'')\<rparr>"

text \<open>
  The sample world with the assembler of the specification; a page parses into the
  pieces of its text that start at a \<open><\<close>, and a page without text is malformed.
\<close>

definition sample_parse :: "string \<Rightarrow> string \<Rightarrow> exn + string list" where
  "sample_parse output img =
     (if output = [] then Inl (LibraryError ''MalformedTag'')
      else Inr (filter (\<lambda>w. w \<noteq> []) (split_sep (CHR ''<'') output)))"

definition tree_env ::
  "(string, (string \<times> string) list, (string, string) document_tree) env" where
  "tree_env =
     sample_world pair_pages (assemble_tree sample_parse)
       (\<lambda>tree. Inr []) (\<lambda>tree. Inr []) (\<lambda>tree indent. Inr [])"

section \<open>Properties of the page loop\<close>

subsection \<open>Auxiliary facts\<close>

declare string_of_nat.simps [simp del]

text \<open>\<open>str_contains\<close> is the substring test.\<close>

lemma str_contains_iff:
  "str_contains needle hay = (\<exists>before after. hay = before @ needle @ after)"
proof (induction hay)
  case Nil
  show ?case by auto
next
  case (Cons c cs)
  show ?case
  proof
    assume "str_contains needle (c # cs)"
    then consider "take (length needle) (c # cs) = needle" | "str_contains needle cs" by auto
    then show "\<exists>before after. c # cs = before @ needle @ after"
    proof cases
      case 1
      then have "c # cs = [] @ needle @ drop (length needle) (c # cs)"
        by (metis append_Nil append_take_drop_id)
      then show ?thesis by blast
    next
      case 2
      with Cons.IH obtain before after where "cs = before @ needle @ after" by blast
      then have "c # cs = (c # before) @ needle @ after" by simp
      then show ?thesis by blast
    qed
  next
    assume "\<exists>before after. c # cs = before @ needle @ after"
    then obtain before after where eq: "c # cs = before @ needle @ after" by blast
    show "str_contains needle (c # cs)"
    proof (cases before)
      case Nil
      with eq have "take (length needle) (c # cs) = needle" by simp
      then show ?thesis by simp
    next
      case (Cons b bs)
      with eq have "cs = bs @ needle @ after" by simp
      with Cons.IH have "str_contains needle cs" by blast
      then show ?thesis by simp
    qed
  qed
qed

text \<open>
  The loop in closed form: it draws the plain tokens at the head of the generator;
  what comes next decides how it ends.
\<close>

lemma stream_loop_closed:
  "stream_loop gen i out =
     (case dropWhile plain_token gen of
        [] \<Rightarrow> Inr (out @ concat (map item_text (takeWhile plain_token gen)),
                  i + length (takeWhile plain_token gen))
      | Raise e # later \<Rightarrow> Inl e
      | Yield text # later \<Rightarrow>
          Inr (out @ concat (map item_text (takeWhile plain_token gen)) @ text,
               Suc (i + length (takeWhile plain_token gen))))"
proof (induction gen i out rule: stream_loop.induct)
  case (1 i acc)
  show ?case by simp
next
  case (2 e later i acc)
  show ?case by (simp add: plain_token_def)
next
  case (3 tok later i acc)
  show ?case
  proof (cases "str_contains ''</doctag>'' tok")
    case True
    then show ?thesis by (simp add: plain_token_def)
  next
    case False
    then have plain: "plain_token (Yield tok)" by (simp add: plain_token_def)
    have tw: "takeWhile plain_token (Yield tok # later) = Yield tok # takeWhile plain_token later"
      and dw: "dropWhile plain_token (Yield tok # later) = dropWhile plain_token later"
      using plain by simp_all
    have it: "item_text (Yield tok) = tok" by (simp add: item_text_def)
    have same: "(case d of
          [] \<Rightarrow> Inr ((acc @ tok) @ concat (map item_text head), Suc i + length head)
        | Raise e # others \<Rightarrow> Inl e
        | Yield t # others \<Rightarrow>
            Inr ((acc @ tok) @ concat (map item_text head) @ t, Suc (Suc i + length head)))
      = (case d of
          [] \<Rightarrow> Inr (acc @ concat (map item_text (Yield tok # head)),
                    i + length (Yield tok # head))
        | Raise e # others \<Rightarrow> Inl e
        | Yield t # others \<Rightarrow>
            Inr (acc @ concat (map item_text (Yield tok # head)) @ t,
                 Suc (i + length (Yield tok # head))))"
      for d :: "gen_item list" and head
      by (simp add: it split: list.splits gen_item.splits)
    from False have "stream_loop (Yield tok # later) i acc
        = stream_loop later (Suc i) (acc @ tok)"
      by simp
    then show ?thesis
      unfolding "3.IH" [OF False] tw dw by (simp only: same)
  qed
qed

lemma page_output_closed:
  "page_output env fp img =
     (case dropWhile plain_token (stream_generate env fp img 4096) of
        [] \<Rightarrow>
          Inr (concat (map item_text (takeWhile plain_token (stream_generate env fp img 4096))),
               length (takeWhile plain_token (stream_generate env fp img 4096)))
      | Raise e # later \<Rightarrow> Inl e
      | Yield text # later \<Rightarrow>
          Inr (concat (map item_text (takeWhile plain_token (stream_generate env fp img 4096)))
                 @ text,
               Suc (length (takeWhile plain_token (stream_generate env fp img 4096)))))"
proof -
  have same: "(case d of
          [] \<Rightarrow> Inr ([] @ drawn, 0 + n)
        | Raise e # others \<Rightarrow> Inl e
        | Yield t # others \<Rightarrow> Inr ([] @ drawn @ t, Suc (0 + n)))
      = (case d of
          [] \<Rightarrow> Inr (drawn, n)
        | Raise e # others \<Rightarrow> Inl e
        | Yield t # others \<Rightarrow> Inr (drawn @ t, Suc n))"
    for d :: "gen_item list" and drawn :: string and n :: nat
    by (simp split: list.splits gen_item.splits)
  show ?thesis
    unfolding page_output_def stream_loop_closed by (simp only: same)
qed

lemma stream_loop_plain:
  assumes "\<forall>t \<in> set tokens. \<not> str_contains ''</doctag>'' t"
  shows "stream_loop (map Yield tokens) i out = Inr (out @ concat tokens, i + length tokens)"
  using assms
proof (induction tokens arbitrary: i out)
  case Nil
  show ?case by simp
next
  case (Cons t tokens)
  then show ?case by simp
qed

lemma run_pages_step:
  "page_output env fp img = Inr (out, n) \<Longrightarrow>
   run_pages env fp np i (img # rest) st = run_pages env fp np (Suc i) rest (page_done st i np img out)"
  by (simp add: page_done_def Let_def)

lemma run_pages_step_raise:
  "page_output env fp img = Inl e \<Longrightarrow> run_pages env fp np i (img # rest) st = Inl e"
  by (simp add: Let_def)

declare run_pages.simps(2) [simp del]


lemma run_pages_result:
  "run_pages env fp np i images st = Inr st' \<Longrightarrow>
     all_images st' = all_images st @ images
     \<and> (\<exists>outs. all_outputs st' = all_outputs st @ outs
           \<and> list_all2 (\<lambda>img out. \<exists>n. page_output env fp img = Inr (out, n)) images outs)"
proof (induction images arbitrary: i st)
  case Nil
  then show ?case by simp
next
  case (Cons x xs)
  show ?case
  proof (cases "page_output env fp x")
    case (Inl e)
    with Cons.prems show ?thesis by (simp add: run_pages_step_raise)
  next
    case (Inr r)
    obtain out n where r: "r = (out, n)" by (cases r)
    with Inr have po: "page_output env fp x = Inr (out, n)" by simp
    from Cons.prems have "run_pages env fp np (Suc i) xs (page_done st i np x out) = Inr st'"
      by (simp add: run_pages_step [OF po])
    from Cons.IH [OF this] obtain outs where
      imgs: "all_images st' = all_images (page_done st i np x out) @ xs" and
      outs: "all_outputs st' = all_outputs (page_done st i np x out) @ outs" and
      rel: "list_all2 (\<lambda>img out. \<exists>n. page_output env fp img = Inr (out, n)) xs outs"
      by blast
    have "all_outputs st' = all_outputs st @ (out # outs)"
      using outs by (simp add: page_done_def)
    moreover have "list_all2 (\<lambda>img out. \<exists>n. page_output env fp img = Inr (out, n)) (x # xs) (out # outs)"
      using rel po by auto
    moreover have "all_images st' = all_images st @ x # xs"
      using imgs by (simp add: page_done_def)
    ultimately show ?thesis by blast
  qed
qed

lemma run_pages_lengths:
  "run_pages env fp np i images st = Inr st' \<Longrightarrow>
     length (all_outputs st') = length (all_outputs st) + length images
     \<and> length (all_images st') = length (all_images st) + length images"
proof -
  assume "run_pages env fp np i images st = Inr st'"
  from run_pages_result [OF this] obtain outs where
    "all_images st' = all_images st @ images" "all_outputs st' = all_outputs st @ outs"
    "list_all2 (\<lambda>img out. \<exists>n. page_output env fp img = Inr (out, n)) images outs"
    by blast
  then show ?thesis by (auto dest: list_all2_lengthD)
qed

lemma build_document_success:
  assumes "build_document env files file_obj url_input = Inr (Inr (doc, images, log))"
  shows "\<exists>input_path files1 fp st dt.
           load_model env = None
         \<and> input_source env files file_obj url_input = Inr (Inr (input_path, files1))
         \<and> snd (load_input_resource env files1 input_path) = Inr images
         \<and> images \<noteq> []
         \<and> apply_chat_template env ''Convert this page to docling.'' 1 = Inr fp
         \<and> run_pages env fp (length images) 0 images
               \<lparr>all_outputs = [], all_images = [], processing_log = []\<rparr> = Inr st
         \<and> from_doctags_and_image_pairs env (all_outputs st) (all_images st) = Inr dt
         \<and> load_from_doctags env ''ProcessedDocument'' dt = Inr doc
         \<and> log = processing_log st"
  using assms unfolding build_document_def
  by (auto split: option.splits sum.splits if_splits prod.splits)

lemma build_document_forward:
  assumes "load_model env = None"
    and "input_source env files file_obj url_input = Inr (Inr (input_path, files1))"
    and "snd (load_input_resource env files1 input_path) = Inr images"
    and "images \<noteq> []"
    and "apply_chat_template env ''Convert this page to docling.'' 1 = Inr fp"
    and "run_pages env fp (length images) 0 images
           \<lparr>all_outputs = [], all_images = [], processing_log = []\<rparr> = Inr st"
    and "from_doctags_and_image_pairs env (all_outputs st) (all_images st) = Inr dt"
    and "load_from_doctags env ''ProcessedDocument'' dt = Inr doc"
  shows "build_document env files file_obj url_input = Inr (Inr (doc, images, processing_log st))"
  using assms by (simp add: build_document_def)

lemma run_pages_all:
  assumes "list_all2 (\<lambda>img out. \<exists>n. page_output env fp img = Inr (out, n)) images outs"
  shows "\<exists>st'. run_pages env fp np i images st = Inr st'
           \<and> all_outputs st' = all_outputs st @ outs
           \<and> all_images st' = all_images st @ images"
  using assms
proof (induction images outs arbitrary: i st rule: list_all2_induct)
  case Nil
  show ?case by simp
next
  case (Cons img images out outs)
  from Cons.hyps(1) obtain n where po: "page_output env fp img = Inr (out, n)" by blast
  from Cons.IH [of "Suc i" "page_done st i np img out"] obtain st' where
    "run_pages env fp np (Suc i) images (page_done st i np img out) = Inr st'"
    "all_outputs st' = all_outputs (page_done st i np img out) @ outs"
    "all_images st' = all_images (page_done st i np img out) @ images"
    by blast
  then show ?case
    by (simp add: run_pages_step [OF po] page_done_def)
qed

subsection \<open>Outputs and images keep the same count\<close>

text \<open>
  C6. A run of the page loop that ends normally has appended exactly one output and
  exactly one image per page, so, started from lists of equal length (both are empty
  when \<open>process_document\<close> starts the loop), it ends with lists of equal length: the
  assembler is never called with different counts.
\<close>

theorem outputs_and_images_in_lockstep:
  assumes "run_pages env fp np i images st = Inr st'"
  shows "length (all_outputs st') = length (all_outputs st) + length images
       \<and> length (all_images st') = length (all_images st) + length images
       \<and> (length (all_outputs st) = length (all_images st)
            \<longrightarrow> length (all_outputs st') = length (all_images st'))"
  using run_pages_lengths [OF assms] by simp

theorem outputs_and_images_in_lockstep_witness:
  "\<exists>st'. run_pages sample_env ''p'' 2 0 [''hello'', ''split'']
             \<lparr>all_outputs = [], all_images = [], processing_log = []\<rparr> = Inr st'
        \<and> length (all_outputs st') = 2 \<and> length (all_images st') = 2"
proof -
  have run: "run_pages sample_env ''p'' 2 0 [''hello'', ''split'']
               \<lparr>all_outputs = [], all_images = [], processing_log = []\<rparr>
      = Inr (page_done (page_done \<lparr>all_outputs = [], all_images = [], processing_log = []\<rparr>
                       0 2 ''hello'' ''<doctag>Hello</doctag>'') 1 2 ''split'' ''</doctag><extra>'')"
    by code_simp
  from outputs_and_images_in_lockstep [OF run] run show ?thesis by auto
qed

subsection \<open>When the loop of a page stops\<close>

text \<open>
  C2, as stated, fails twice. The loop tests the text of the token just drawn, not
  the accumulator: with the tokens \<open></doc\<close>, \<open>tag>\<close>, \<open><extra>\<close> the accumulator holds the
  closing doctag after the second token, and the loop draws the third. And the loop
  has no bound of its own: 4096 is the \<open>max_tokens\<close> it passes to the generator, and
  it draws every item the generator yields, here 4097 of them for a generator that
  yields one item more than \<open>max_tokens\<close>.
\<close>

theorem marker_across_tokens_counterexample:
  "stream_generate sample_env ''p'' ''split'' 4096
     = [Yield ''</doc'', Yield ''tag>'', Yield ''<extra>'']
   \<and> str_contains ''</doctag>'' (''</doc'' @ ''tag>'')
   \<and> page_output sample_env ''p'' ''split'' = Inr (''</doctag><extra>'', 3)
   \<and> length (stream_generate sample_env ''p'' ''runaway'' 4096) = 4097
   \<and> page_output sample_env ''p'' ''runaway'' = Inr (concat (replicate 4097 ''x''), 4097)"
proof -
  have split: "stream_generate sample_env ''p'' ''split'' 4096
       = [Yield ''</doc'', Yield ''tag>'', Yield ''<extra>'']
     \<and> str_contains ''</doctag>'' (''</doc'' @ ''tag>'')
     \<and> page_output sample_env ''p'' ''split'' = Inr (''</doctag><extra>'', 3)"
    by code_simp
  have gen: "stream_generate sample_env ''p'' ''runaway'' 4096
      = map Yield (replicate 4097 ''x'')"
    by (simp add: sample_env_def sample_world_def sample_stream_def)
  have plain: "\<forall>t \<in> set (replicate 4097 ''x''). \<not> str_contains ''</doctag>'' t"
    by simp
  have len: "length (stream_generate sample_env ''p'' ''runaway'' 4096) = 4097"
    by (simp add: gen)
  have out: "page_output sample_env ''p'' ''runaway'' = Inr (concat (replicate 4097 ''x''), 4097)"
    unfolding page_output_def gen stream_loop_plain [OF plain] by simp
  from split len out show ?thesis by blast
qed

text \<open>
  C2, amended. The loop of a page draws the items of the generator, which is called
  with \<open>max_tokens\<close> 4096, up to and including the first token whose own text contains
  \<open></doctag>\<close>, and nothing after that token, whatever the generator would yield or
  raise then. When no token contains it, the loop draws every item; when the
  generator raises before such a token, the exception leaves the loop. The output is
  the concatenation of the texts drawn, the terminating token included; no more
  items are drawn than the generator has; and that output, verbatim, is what the page
  loop appends for the page.
\<close>

theorem stream_stops_at_marker_token:
  "page_output env fp img =
     (case dropWhile plain_token (stream_generate env fp img 4096) of
        [] \<Rightarrow>
          Inr (concat (map item_text (takeWhile plain_token (stream_generate env fp img 4096))),
               length (takeWhile plain_token (stream_generate env fp img 4096)))
      | Raise e # later \<Rightarrow> Inl e
      | Yield text # later \<Rightarrow>
          Inr (concat (map item_text (takeWhile plain_token (stream_generate env fp img 4096)))
                 @ text,
               Suc (length (takeWhile plain_token (stream_generate env fp img 4096)))))
   \<and> (\<forall>text later.
          dropWhile plain_token (stream_generate env fp img 4096) = Yield text # later
          \<longrightarrow> str_contains ''</doctag>'' text)
   \<and> (\<forall>item \<in> set (takeWhile plain_token (stream_generate env fp img 4096)).
          \<exists>text. item = Yield text \<and> \<not> str_contains ''</doctag>'' text)
   \<and> (\<forall>out n. page_output env fp img = Inr (out, n)
          \<longrightarrow> n \<le> length (stream_generate env fp img 4096)
              \<and> (\<forall>np i rest st.
                     run_pages env fp np i (img # rest) st
                       = run_pages env fp np (Suc i) rest (page_done st i np img out)))"
proof (intro conjI allI impI ballI)
  let ?gen = "stream_generate env fp img 4096"
  show closed: "page_output env fp img =
     (case dropWhile plain_token ?gen of
        [] \<Rightarrow> Inr (concat (map item_text (takeWhile plain_token ?gen)),
                  length (takeWhile plain_token ?gen))
      | Raise e # later \<Rightarrow> Inl e
      | Yield text # later \<Rightarrow>
          Inr (concat (map item_text (takeWhile plain_token ?gen)) @ text,
               Suc (length (takeWhile plain_token ?gen))))"
    by (rule page_output_closed)
  {
    fix tok later
    assume dw: "dropWhile plain_token ?gen = Yield tok # later"
    have "\<not> plain_token (hd (dropWhile plain_token ?gen))"
      by (rule hd_dropWhile) (simp add: dw)
    with dw show "str_contains ''</doctag>'' tok" by (simp add: plain_token_def)
  }
  {
    fix item
    assume "item \<in> set (takeWhile plain_token ?gen)"
    then have "plain_token item" by (rule set_takeWhileD [THEN conjunct2])
    then show "\<exists>t. item = Yield t \<and> \<not> str_contains ''</doctag>'' t"
      by (cases item) (simp_all add: plain_token_def)
  }
  {
    fix out n
    assume po: "page_output env fp img = Inr (out, n)"
    have parts: "length (takeWhile plain_token ?gen) + length (dropWhile plain_token ?gen)
        = length ?gen"
      by (metis length_append takeWhile_dropWhile_id)
    from po closed parts show "n \<le> length ?gen"
      by (auto split: list.splits gen_item.splits)
    fix np i rest st
    from run_pages_step [OF po]
    show "run_pages env fp np i (img # rest) st
        = run_pages env fp np (Suc i) rest (page_done st i np img out)" .
  }
qed

theorem stream_stops_at_marker_token_witness:
  "page_output sample_env ''p'' ''hello'' = Inr (''<doctag>Hello</doctag>'', 3)
   \<and> stream_generate sample_env ''p'' ''hello'' 4096 ! 3 = Yield ''<extra>''
   \<and> page_output sample_env ''p'' ''after'' = Inr (''<doctag>a</doctag>'', 1)
   \<and> stream_generate sample_env ''p'' ''after'' 4096 ! 1 = Raise (LibraryError ''engine'')
   \<and> page_output sample_env ''p'' ''crash'' = Inl (LibraryError ''engine'')
   \<and> run_pages sample_env ''p'' 1 0 [''hello'']
        \<lparr>all_outputs = [], all_images = [], processing_log = []\<rparr>
      = Inr (page_done \<lparr>all_outputs = [], all_images = [], processing_log = []\<rparr>
               0 1 ''hello'' ''<doctag>Hello</doctag>'')"
proof -
  let ?init = "\<lparr>all_outputs = [], all_images = [], processing_log = []\<rparr> :: string loop_state"
  have v1: "(case dropWhile plain_token (stream_generate sample_env ''p'' ''hello'' 4096) of
        [] \<Rightarrow>
          Inr (concat (map item_text (takeWhile plain_token (stream_generate sample_env ''p'' ''hello'' 4096))),
               length (takeWhile plain_token (stream_generate sample_env ''p'' ''hello'' 4096)))
      | Raise e # later \<Rightarrow> Inl e
      | Yield text # later \<Rightarrow>
          Inr (concat (map item_text (takeWhile plain_token (stream_generate sample_env ''p'' ''hello'' 4096)))
                 @ text,
               Suc (length (takeWhile plain_token (stream_generate sample_env ''p'' ''hello'' 4096)))))
      = Inr (''<doctag>Hello</doctag>'', 3)"
    by code_simp
  have v2: "(case dropWhile plain_token (stream_generate sample_env ''p'' ''after'' 4096) of
        [] \<Rightarrow>
          Inr (concat (map item_text (takeWhile plain_token (stream_generate sample_env ''p'' ''after'' 4096))),
               length (takeWhile plain_token (stream_generate sample_env ''p'' ''after'' 4096)))
      | Raise e # later \<Rightarrow> Inl e
      | Yield text # later \<Rightarrow>
          Inr (concat (map item_text (takeWhile plain_token (stream_generate sample_env ''p'' ''after'' 4096)))
                 @ text,
               Suc (length (takeWhile plain_token (stream_generate sample_env ''p'' ''after'' 4096)))))
      = Inr (''<doctag>a</doctag>'', 1)"
    by code_simp
  have v3: "(case dropWhile plain_token (stream_generate sample_env ''p'' ''crash'' 4096) of
        [] \<Rightarrow>
          Inr (concat (map item_text (takeWhile plain_token (stream_generate sample_env ''p'' ''crash'' 4096))),
               length (takeWhile plain_token (stream_generate sample_env ''p'' ''crash'' 4096)))
      | Raise e # later \<Rightarrow> Inl e
      | Yield text # later \<Rightarrow>
          Inr (concat (map item_text (takeWhile plain_token (stream_generate sample_env ''p'' ''crash'' 4096)))
                 @ text,
               Suc (length (takeWhile plain_token (stream_generate sample_env ''p'' ''crash'' 4096)))))
      = Inl (LibraryError ''engine'')"
    by code_simp
  note hello = stream_stops_at_marker_token [of sample_env "''p''" "''hello''"]
  have p1: "page_output sample_env ''p'' ''hello'' = Inr (''<doctag>Hello</doctag>'', 3)"
    using hello [THEN conjunct1] v1 by (rule trans)
  have p2: "page_output sample_env ''p'' ''after'' = Inr (''<doctag>a</doctag>'', 1)"
    using stream_stops_at_marker_token [of sample_env "''p''" "''after''", THEN conjunct1] v2
    by (rule trans)
  have p3: "page_output sample_env ''p'' ''crash'' = Inl (LibraryError ''engine'')"
    using stream_stops_at_marker_token [of sample_env "''p''" "''crash''", THEN conjunct1] v3
    by (rule trans)
  have more: "stream_generate sample_env ''p'' ''hello'' 4096 ! 3 = Yield ''<extra>''"
    by code_simp
  have raises: "stream_generate sample_env ''p'' ''after'' 4096 ! 1 = Raise (LibraryError ''engine'')"
    by code_simp
  from hello p1
  have "run_pages sample_env ''p'' 1 0 (''hello'' # []) ?init
      = run_pages sample_env ''p'' 1 (Suc 0) [] (page_done ?init 0 1 ''hello'' ''<doctag>Hello</doctag>'')"
    by blast
  then have run: "run_pages sample_env ''p'' 1 0 [''hello''] ?init
      = Inr (page_done ?init 0 1 ''hello'' ''<doctag>Hello</doctag>'')"
    by simp
  from p1 more p2 raises p3 run show ?thesis by (intro conjI)
qed

section \<open>Properties of process_document\<close>

subsection \<open>Auxiliary facts\<close>

lemma process_document_raised:
  "process_try env files file_obj url_input export_format = Inl e \<Longrightarrow>
   process_document env files file_obj url_input export_format
     = (error_text env e, None, Some (format_exc env e))"
  by (simp add: process_document_def error_text_def Let_def)

lemma process_document_returned:
  "process_try env files file_obj url_input export_format = Inr r \<Longrightarrow>
   process_document env files file_obj url_input export_format = r"
  by (simp add: process_document_def)

lemma process_try_build_raises:
  "build_document env files file_obj url_input = Inl e \<Longrightarrow>
   process_try env files file_obj url_input export_format = Inl e"
  by (simp add: process_try_def)

lemma process_try_early:
  "build_document env files file_obj url_input = Inr (Inl early) \<Longrightarrow>
   process_try env files file_obj url_input export_format = Inr early"
  by (simp add: process_try_def)

lemma process_try_export:
  "build_document env files file_obj url_input = Inr (Inr (doc, images, log)) \<Longrightarrow>
   process_try env files file_obj url_input export_format =
     (case snd (export_document env doc export_format) of
        Inl e \<Rightarrow> Inl e
      | Inr result \<Rightarrow>
          Inr (result, (case images of [] \<Rightarrow> None | img # _ \<Rightarrow> Some img), Some log))"
  by (simp add: process_try_def)

lemma input_source_early:
  "input_source env files file_obj url_input = Inr (Inl early) \<Longrightarrow>
   early = (''Please provide either a file upload or a URL'', None, None)
   \<and> file_obj = None \<and> py_strip url_input = []"
  unfolding input_source_def
  by (auto simp: Let_def split: option.splits upload.splits if_splits)

lemma build_document_early:
  assumes "build_document env files file_obj url_input = Inr (Inl early)"
  shows "early = (''Please provide either a file upload or a URL'', None, None)
       \<or> early = (''No images could be extracted from the provided file or URL'', None, None)"
proof (cases "input_source env files file_obj url_input")
  case (Inl e)
  with assms show ?thesis
    by (simp add: build_document_def split: option.splits)
next
  case (Inr v)
  show ?thesis
  proof (cases v)
    case (Inl early')
    with Inr assms have "early = early'"
      by (simp add: build_document_def split: option.splits)
    with input_source_early Inr Inl show ?thesis by blast
  next
    case right: (Inr pf)
    obtain input_path files1 where pf: "pf = (input_path, files1)" by (cases pf)
    from assms Inr right pf
    have "early = (''No images could be extracted from the provided file or URL'', None, None)"
      unfolding build_document_def
      by (simp split: option.splits sum.splits if_splits)
    then show ?thesis by simp
  qed
qed

lemma build_raises_model:
  "load_model env = Some e \<Longrightarrow> build_document env files file_obj url_input = Inl e"
  by (simp add: build_document_def)

lemma build_raises_source:
  "load_model env = None \<Longrightarrow>
   input_source env files file_obj url_input = Inl e \<Longrightarrow>
   build_document env files file_obj url_input = Inl e"
  by (simp add: build_document_def)

lemma build_raises_loader:
  "load_model env = None \<Longrightarrow>
   input_source env files file_obj url_input = Inr (Inr (input_path, files1)) \<Longrightarrow>
   snd (load_input_resource env files1 input_path) = Inl e \<Longrightarrow>
   build_document env files file_obj url_input = Inl e"
  by (simp add: build_document_def)

lemma build_no_images:
  "load_model env = None \<Longrightarrow>
   input_source env files file_obj url_input = Inr (Inr (input_path, files1)) \<Longrightarrow>
   snd (load_input_resource env files1 input_path) = Inr [] \<Longrightarrow>
   build_document env files file_obj url_input
     = Inr (Inl (''No images could be extracted from the provided file or URL'', None, None))"
  by (simp add: build_document_def)

lemma build_raises_prompt:
  "load_model env = None \<Longrightarrow>
   input_source env files file_obj url_input = Inr (Inr (input_path, files1)) \<Longrightarrow>
   snd (load_input_resource env files1 input_path) = Inr images \<Longrightarrow>
   images \<noteq> [] \<Longrightarrow>
   apply_chat_template env ''Convert this page to docling.'' 1 = Inl e \<Longrightarrow>
   build_document env files file_obj url_input = Inl e"
  by (simp add: build_document_def)

lemma build_raises_engine:
  "load_model env = None \<Longrightarrow>
   input_source env files file_obj url_input = Inr (Inr (input_path, files1)) \<Longrightarrow>
   snd (load_input_resource env files1 input_path) = Inr images \<Longrightarrow>
   images \<noteq> [] \<Longrightarrow>
   apply_chat_template env ''Convert this page to docling.'' 1 = Inr fp \<Longrightarrow>
   run_pages env fp (length images) 0 images
     \<lparr>all_outputs = [], all_images = [], processing_log = []\<rparr> = Inl e \<Longrightarrow>
   build_document env files file_obj url_input = Inl e"
  by (simp add: build_document_def)

lemma build_raises_pairs:
  "load_model env = None \<Longrightarrow>
   input_source env files file_obj url_input = Inr (Inr (input_path, files1)) \<Longrightarrow>
   snd (load_input_resource env files1 input_path) = Inr images \<Longrightarrow>
   images \<noteq> [] \<Longrightarrow>
   apply_chat_template env ''Convert this page to docling.'' 1 = Inr fp \<Longrightarrow>
   run_pages env fp (length images) 0 images
     \<lparr>all_outputs = [], all_images = [], processing_log = []\<rparr> = Inr st \<Longrightarrow>
   from_doctags_and_image_pairs env (all_outputs st) (all_images st) = Inl e \<Longrightarrow>
   build_document env files file_obj url_input = Inl e"
  by (simp add: build_document_def)

lemma build_raises_tree:
  "load_model env = None \<Longrightarrow>
   input_source env files file_obj url_input = Inr (Inr (input_path, files1)) \<Longrightarrow>
   snd (load_input_resource env files1 input_path) = Inr images \<Longrightarrow>
   images \<noteq> [] \<Longrightarrow>
   apply_chat_template env ''Convert this page to docling.'' 1 = Inr fp \<Longrightarrow>
   run_pages env fp (length images) 0 images
     \<lparr>all_outputs = [], all_images = [], processing_log = []\<rparr> = Inr st \<Longrightarrow>
   from_doctags_and_image_pairs env (all_outputs st) (all_images st) = Inr dt \<Longrightarrow>
   load_from_doctags env ''ProcessedDocument'' dt = Inl e \<Longrightarrow>
   build_document env files file_obj url_input = Inl e"
  by (simp add: build_document_def)

lemma build_no_input:
  "load_model env = None \<Longrightarrow> py_strip url_input = [] \<Longrightarrow>
   build_document env files None url_input
     = Inr (Inl (''Please provide either a file upload or a URL'', None, None))"
  by (simp add: build_document_def input_source_def)

lemma process_document_shapes:
  "(\<exists>e. process_try env files file_obj url_input export_format = Inl e
        \<and> process_document env files file_obj url_input export_format
            = (error_text env e, None, Some (format_exc env e)))
   \<or> process_document env files file_obj url_input export_format
        = (''Please provide either a file upload or a URL'', None, None)
   \<or> process_document env files file_obj url_input export_format
        = (''No images could be extracted from the provided file or URL'', None, None)
   \<or> (\<exists>result img log.
          process_document env files file_obj url_input export_format
            = (result, Some img, Some log))"
proof (cases "process_try env files file_obj url_input export_format")
  case (Inl e)
  from process_document_raised [OF this] Inl show ?thesis by blast
next
  case (Inr r)
  note pd = process_document_returned [OF Inr]
  show ?thesis
  proof (cases "build_document env files file_obj url_input")
    case (Inl e)
    from process_try_build_raises [OF this, of export_format] Inr show ?thesis by simp
  next
    case built: (Inr v)
    show ?thesis
    proof (cases v)
      case (Inl early)
      with built have b: "build_document env files file_obj url_input = Inr (Inl early)" by simp
      from process_try_early [OF b, of export_format] Inr have "r = early" by simp
      with build_document_early [OF b] pd show ?thesis by auto
    next
      case right: (Inr t)
      obtain doc images log where t: "t = (doc, images, log)" by (cases t)
      with built right
      have b: "build_document env files file_obj url_input = Inr (Inr (doc, images, log))"
        by simp
      from build_document_success [OF b] have "images \<noteq> []" by blast
      then obtain img later where images: "images = img # later" by (cases images) auto
      from process_try_export [OF b, of export_format] Inr images
      obtain result where "r = (result, Some img, Some log)"
        by (cases "snd (export_document env doc export_format)") auto
      with pd show ?thesis by blast
    qed
  qed
qed

subsection \<open>A page that never closes its doctag\<close>



subsection \<open>Pages in order\<close>

lemma parse_pages_all:
  assumes "list_all2 (\<lambda>(out, img) forest. parse_page out img = Inr forest) pairs forests"
  shows "parse_pages parse_page pairs = Inr forests"
  using assms
proof (induction pairs forests rule: list_all2_induct)
  case Nil
  show ?case by simp
next
  case (Cons pair pairs forest forests)
  obtain out img where pair: "pair = (out, img)" by (cases pair)
  with Cons show ?case by simp
qed

lemma page_sequence_contents:
  "filter (\<lambda>el. el \<noteq> PageBreak) (page_sequence i forests) = page_contents i forests"
proof (induction i forests rule: page_sequence.induct)
  case (1 i)
  show ?case by simp
next
  case (2 i forest)
  show ?case by (simp add: filter_map comp_def)
next
  case (3 i forest next_forest later)
  have "filter (\<lambda>el. el \<noteq> PageBreak) (map (Content i) forest) = map (Content i) forest"
    by (simp add: filter_map comp_def)
  with 3 show ?case by simp
qed

text \<open>
  C5. With the assembler of the specification. For the images the loader returned,
  the page loop ends with the output of the i-th image at position i, and hands the
  assembler these outputs and these images; the tree that is built has the images as
  its pages, and its elements are the elements of the pages in ascending page order,
  each with the index of its page, with one page break between two pages: without
  the breaks, the concatenation of the elements of each page in page order.
\<close>

theorem pages_assembled_in_order:
  assumes model: "load_model env = None"
    and source: "input_source env files file_obj url_input = Inr (Inr (input_path, files1))"
    and pages: "snd (load_input_resource env files1 input_path) = Inr images"
    and nonempty: "images \<noteq> []"
    and prompt: "apply_chat_template env ''Convert this page to docling.'' 1 = Inr fp"
    and generated: "list_all2 (\<lambda>img out. \<exists>n. page_output env fp img = Inr (out, n)) images outs"
    and pairing: "from_doctags_and_image_pairs env = pair_pages"
    and loading: "load_from_doctags env = assemble_tree parse_page"
    and parsed: "list_all2 (\<lambda>(out, img) forest. parse_page out img = Inr forest)
                   (zip outs images) forests"
  shows "\<exists>st tree log.
           run_pages env fp (length images) 0 images
             \<lparr>all_outputs = [], all_images = [], processing_log = []\<rparr> = Inr st
         \<and> all_outputs st = outs
         \<and> all_images st = images
         \<and> from_doctags_and_image_pairs env (all_outputs st) (all_images st)
             = Inr (zip outs images)
         \<and> build_document env files file_obj url_input = Inr (Inr (tree, images, log))
         \<and> tree_pages tree = images
         \<and> length forests = length images
         \<and> tree_elements tree = page_sequence 0 forests
         \<and> filter (\<lambda>el. el \<noteq> PageBreak) (tree_elements tree) = page_contents 0 forests"
proof -
  let ?init = "\<lparr>all_outputs = [], all_images = [], processing_log = []\<rparr> :: 'a loop_state"
  from run_pages_all [OF generated, of "length images" 0 ?init] obtain st where
    run: "run_pages env fp (length images) 0 images ?init = Inr st"
    and outs: "all_outputs st = outs" and imgs: "all_images st = images"
    by auto
  from generated have len: "length outs = length images"
    by (auto dest: list_all2_lengthD)
  have paired: "from_doctags_and_image_pairs env (all_outputs st) (all_images st)
      = Inr (zip outs images)"
    using len by (simp add: pairing pair_pages_def outs imgs)
  let ?tree = "\<lparr>tree_name = ''ProcessedDocument'',
                 tree_elements = page_sequence 0 forests,
                 tree_pages = map snd (zip outs images)\<rparr>"
  have loaded: "load_from_doctags env ''ProcessedDocument'' (zip outs images) = Inr ?tree"
    by (simp add: loading assemble_tree_def parse_pages_all [OF parsed])
  from build_document_forward [OF model source pages nonempty prompt run paired loaded]
  have built: "build_document env files file_obj url_input
      = Inr (Inr (?tree, images, processing_log st))" .
  have pages_kept: "tree_pages ?tree = images" using len by simp
  from parsed have "length forests = length (zip outs images)"
    by (auto dest: list_all2_lengthD)
  with len have count: "length forests = length images" by simp
  have order: "filter (\<lambda>el. el \<noteq> PageBreak) (tree_elements ?tree) = page_contents 0 forests"
    by (simp add: page_sequence_contents)
  have elems: "tree_elements ?tree = page_sequence 0 forests" by simp
  from run outs imgs paired built pages_kept count elems order show ?thesis by blast
qed

theorem pages_assembled_in_order_witness:
  "\<exists>tree log.
      build_document tree_env sample_files None ''https://example.org/report.png''
        = Inr (Inr (tree, [''hello'', ''split''], log))
    \<and> tree_pages tree = [''hello'', ''split'']
    \<and> tree_elements tree
        = [Content 0 ''doctag>Hello'', Content 0 ''/doctag>'', PageBreak,
           Content 1 ''/doctag>'', Content 1 ''extra>'']
    \<and> filter (\<lambda>el. el \<noteq> PageBreak) (tree_elements tree)
        = [Content 0 ''doctag>Hello'', Content 0 ''/doctag>'',
           Content 1 ''/doctag>'', Content 1 ''extra>'']"
proof -
  let ?fp = "''<user>Convert this page to docling.''"
  let ?url = "''https://example.org/report.png''"
  let ?forests = "[[''doctag>Hello'', ''/doctag>''], [''/doctag>'', ''extra>'']]"
  have model: "load_model tree_env = None" by code_simp
  have strip: "py_strip ?url = ?url" by code_simp
  have source: "input_source tree_env sample_files None ?url = Inr (Inr (?url, sample_files))"
    by (simp add: input_source_def strip)
  have pages: "snd (load_input_resource tree_env sample_files ?url) = Inr [''hello'', ''split'']"
    by code_simp
  have nonempty: "[''hello'', ''split''] \<noteq> ([] :: string list)" by simp
  have prompt: "apply_chat_template tree_env ''Convert this page to docling.'' 1 = Inr ?fp"
    by code_simp
  have g1: "page_output tree_env ?fp ''hello'' = Inr (''<doctag>Hello</doctag>'', 3)"
    by code_simp
  have g2: "page_output tree_env ?fp ''split'' = Inr (''</doctag><extra>'', 3)"
    by code_simp
  have generated: "list_all2 (\<lambda>img out. \<exists>n. page_output tree_env ?fp img = Inr (out, n))
      [''hello'', ''split''] [''<doctag>Hello</doctag>'', ''</doctag><extra>'']"
    using g1 g2 by simp
  have pairing: "from_doctags_and_image_pairs tree_env = pair_pages"
    by (simp add: tree_env_def sample_world_def)
  have loading: "load_from_doctags tree_env = assemble_tree sample_parse"
    by (simp add: tree_env_def sample_world_def)
  have f1: "sample_parse ''<doctag>Hello</doctag>'' ''hello'' = Inr [''doctag>Hello'', ''/doctag>'']"
    by code_simp
  have f2: "sample_parse ''</doctag><extra>'' ''split'' = Inr [''/doctag>'', ''extra>'']"
    by code_simp
  have parsed: "list_all2 (\<lambda>(out, img) forest. sample_parse out img = Inr forest)
      (zip [''<doctag>Hello</doctag>'', ''</doctag><extra>''] [''hello'', ''split'']) ?forests"
    using f1 f2 by simp
  have seq: "page_sequence 0 ?forests
      = [Content 0 ''doctag>Hello'', Content 0 ''/doctag>'', PageBreak,
         Content 1 ''/doctag>'', Content 1 ''extra>'']"
    by simp
  have con: "page_contents 0 ?forests
      = [Content 0 ''doctag>Hello'', Content 0 ''/doctag>'',
         Content 1 ''/doctag>'', Content 1 ''extra>'']"
    by simp
  from pages_assembled_in_order
    [OF model source pages nonempty prompt generated pairing loading parsed]
  show ?thesis unfolding seq con by auto
qed

subsection \<open>The export step\<close>




subsection \<open>Nothing is raised to the caller\<close>

text \<open>
  C10, as stated, fails in one detail: on a caught exception the third value
  returned is the traceback text, not \<open>None\<close>.
\<close>

theorem caught_exception_log_counterexample:
  "load_model broken_env = Some (LibraryError ''weights'')
   \<and> process_try broken_env sample_files None ''https://example.org/paper.pdf'' ''Markdown''
        = Inl (LibraryError ''weights'')
   \<and> process_document broken_env sample_files None ''https://example.org/paper.pdf'' ''Markdown''
        = (''Error processing document: weights'' @ [CHR 10, CHR 10] @ ''Details:'' @ [CHR 10]
             @ ''Traceback'',
           None, Some ''Traceback'')"
  by code_simp

text \<open>
  C10, amended. \<open>process_document\<close> always returns three values, of one of four
  shapes: the error text of a caught exception with no preview and the traceback as
  third value; one of the two messages (no input given; no image extracted) with no
  preview and no log; or a result with a preview and a log. Every exception that
  leaves the body of the \<open>try\<close> is caught and gives the first shape; such is an
  exception raised by \<open>load_model\<close>, by the saving of the upload, by
  \<open>load_input_resource\<close>, by \<open>apply_chat_template\<close>, by the generator of a page, by
  \<open>from_doctags_and_image_pairs\<close>, by \<open>load_from_doctags\<close> or by the export. With a
  loaded model, no file and a blank URL give the first message, and an empty list of
  images gives the second.
\<close>

theorem process_document_always_returns:
  "((\<exists>e. process_try env files file_obj url_input export_format = Inl e
         \<and> process_document env files file_obj url_input export_format
             = (error_text env e, None, Some (format_exc env e)))
    \<or> process_document env files file_obj url_input export_format
         = (''Please provide either a file upload or a URL'', None, None)
    \<or> process_document env files file_obj url_input export_format
         = (''No images could be extracted from the provided file or URL'', None, None)
    \<or> (\<exists>result img log.
           process_document env files file_obj url_input export_format
             = (result, Some img, Some log)))
   \<and> (\<forall>e.
          process_try env files file_obj url_input export_format = Inl e
          \<longrightarrow> process_document env files file_obj url_input export_format
                = (error_text env e, None, Some (format_exc env e)))
   \<and> (\<forall>e.
          load_model env = Some e
          \<longrightarrow> process_document env files file_obj url_input export_format
                = (error_text env e, None, Some (format_exc env e)))
   \<and> (\<forall>e.
          load_model env = None
          \<and> input_source env files file_obj url_input = Inl e
          \<longrightarrow> process_document env files file_obj url_input export_format
                = (error_text env e, None, Some (format_exc env e)))
   \<and> (\<forall>input_path files1 e.
          load_model env = None
          \<and> input_source env files file_obj url_input = Inr (Inr (input_path, files1))
          \<and> snd (load_input_resource env files1 input_path) = Inl e
          \<longrightarrow> process_document env files file_obj url_input export_format
                = (error_text env e, None, Some (format_exc env e)))
   \<and> (\<forall>input_path files1 images e.
          load_model env = None
          \<and> input_source env files file_obj url_input = Inr (Inr (input_path, files1))
          \<and> snd (load_input_resource env files1 input_path) = Inr images
          \<and> images \<noteq> []
          \<and> apply_chat_template env ''Convert this page to docling.'' 1 = Inl e
          \<longrightarrow> process_document env files file_obj url_input export_format
                = (error_text env e, None, Some (format_exc env e)))
   \<and> (\<forall>input_path files1 images fp e.
          load_model env = None
          \<and> input_source env files file_obj url_input = Inr (Inr (input_path, files1))
          \<and> snd (load_input_resource env files1 input_path) = Inr images
          \<and> images \<noteq> []
          \<and> apply_chat_template env ''Convert this page to docling.'' 1 = Inr fp
          \<and> run_pages env fp (length images) 0 images
                \<lparr>all_outputs = [], all_images = [], processing_log = []\<rparr> = Inl e
          \<longrightarrow> process_document env files file_obj url_input export_format
                = (error_text env e, None, Some (format_exc env e)))
   \<and> (\<forall>input_path files1 images fp st e.
          load_model env = None
          \<and> input_source env files file_obj url_input = Inr (Inr (input_path, files1))
          \<and> snd (load_input_resource env files1 input_path) = Inr images
          \<and> images \<noteq> []
          \<and> apply_chat_template env ''Convert this page to docling.'' 1 = Inr fp
          \<and> run_pages env fp (length images) 0 images
                \<lparr>all_outputs = [], all_images = [], processing_log = []\<rparr> = Inr st
          \<and> from_doctags_and_image_pairs env (all_outputs st) (all_images st) = Inl e
          \<longrightarrow> process_document env files file_obj url_input export_format
                = (error_text env e, None, Some (format_exc env e)))
   \<and> (\<forall>input_path files1 images fp st dt e.
          load_model env = None
          \<and> input_source env files file_obj url_input = Inr (Inr (input_path, files1))
          \<and> snd (load_input_resource env files1 input_path) = Inr images
          \<and> images \<noteq> []
          \<and> apply_chat_template env ''Convert this page to docling.'' 1 = Inr fp
          \<and> run_pages env fp (length images) 0 images
                \<lparr>all_outputs = [], all_images = [], processing_log = []\<rparr> = Inr st
          \<and> from_doctags_and_image_pairs env (all_outputs st) (all_images st) = Inr dt
          \<and> load_from_doctags env ''ProcessedDocument'' dt = Inl e
          \<longrightarrow> process_document env files file_obj url_input export_format
                = (error_text env e, None, Some (format_exc env e)))
   \<and> (\<forall>doc images log e.
          build_document env files file_obj url_input = Inr (Inr (doc, images, log))
          \<and> snd (export_document env doc export_format) = Inl e
          \<longrightarrow> process_document env files file_obj url_input export_format
                = (error_text env e, None, Some (format_exc env e)))
   \<and> (load_model env = None \<and> file_obj = None \<and> py_strip url_input = []
          \<longrightarrow> process_document env files file_obj url_input export_format
                = (''Please provide either a file upload or a URL'', None, None))
   \<and> (\<forall>input_path files1.
          load_model env = None
          \<and> input_source env files file_obj url_input = Inr (Inr (input_path, files1))
          \<and> snd (load_input_resource env files1 input_path) = Inr []
          \<longrightarrow> process_document env files file_obj url_input export_format
                = (''No images could be extracted from the provided file or URL'', None, None))"
proof (intro conjI allI impI)
  show "(\<exists>e. process_try env files file_obj url_input export_format = Inl e
         \<and> process_document env files file_obj url_input export_format
             = (error_text env e, None, Some (format_exc env e)))
    \<or> process_document env files file_obj url_input export_format
         = (''Please provide either a file upload or a URL'', None, None)
    \<or> process_document env files file_obj url_input export_format
         = (''No images could be extracted from the provided file or URL'', None, None)
    \<or> (\<exists>result img log.
           process_document env files file_obj url_input export_format
             = (result, Some img, Some log))"
    by (rule process_document_shapes)
next
  fix e
  assume "process_try env files file_obj url_input export_format = Inl e"
  from process_document_raised [OF this]
  show "process_document env files file_obj url_input export_format
      = (error_text env e, None, Some (format_exc env e))" .
next
  fix e
  assume "load_model env = Some e"
  then have "build_document env files file_obj url_input = Inl e"
    using build_raises_model [of env e files file_obj url_input] by blast
  from process_document_raised [OF process_try_build_raises [OF this]]
  show "process_document env files file_obj url_input export_format
      = (error_text env e, None, Some (format_exc env e))" .
next
  fix e
  assume "load_model env = None
          \<and> input_source env files file_obj url_input = Inl e"
  then have "build_document env files file_obj url_input = Inl e"
    using build_raises_source [of env files file_obj url_input e] by blast
  from process_document_raised [OF process_try_build_raises [OF this]]
  show "process_document env files file_obj url_input export_format
      = (error_text env e, None, Some (format_exc env e))" .
next
  fix input_path files1 e
  assume "load_model env = None
          \<and> input_source env files file_obj url_input = Inr (Inr (input_path, files1))
          \<and> snd (load_input_resource env files1 input_path) = Inl e"
  then have "build_document env files file_obj url_input = Inl e"
    using build_raises_loader [of env files file_obj url_input input_path files1 e] by blast
  from process_document_raised [OF process_try_build_raises [OF this]]
  show "process_document env files file_obj url_input export_format
      = (error_text env e, None, Some (format_exc env e))" .
next
  fix input_path files1 images e
  assume "load_model env = None
          \<and> input_source env files file_obj url_input = Inr (Inr (input_path, files1))
          \<and> snd (load_input_resource env files1 input_path) = Inr images
          \<and> images \<noteq> []
          \<and> apply_chat_template env ''Convert this page to docling.'' 1 = Inl e"
  then have "build_document env files file_obj url_input = Inl e"
    using build_raises_prompt [of env files file_obj url_input input_path files1 images e] by blast
  from process_document_raised [OF process_try_build_raises [OF this]]
  show "process_document env files file_obj url_input export_format
      = (error_text env e, None, Some (format_exc env e))" .
next
  fix input_path files1 images fp e
  assume "load_model env = None
          \<and> input_source env files file_obj url_input = Inr (Inr (input_path, files1))
          \<and> snd (load_input_resource env files1 input_path) = Inr images
          \<and> images \<noteq> []
          \<and> apply_chat_template env ''Convert this page to docling.'' 1 = Inr fp
          \<and> run_pages env fp (length images) 0 images
                \<lparr>all_outputs = [], all_images = [], processing_log = []\<rparr> = Inl e"
  then have "build_document env files file_obj url_input = Inl e"
    using build_raises_engine [of env files file_obj url_input input_path files1 images fp e] by blast
  from process_document_raised [OF process_try_build_raises [OF this]]
  show "process_document env files file_obj url_input export_format
      = (error_text env e, None, Some (format_exc env e))" .
next
  fix input_path files1 images fp st e
  assume "load_model env = None
          \<and> input_source env files file_obj url_input = Inr (Inr (input_path, files1))
          \<and> snd (load_input_resource env files1 input_path) = Inr images
          \<and> images \<noteq> []
          \<and> apply_chat_template env ''Convert this page to docling.'' 1 = Inr fp
          \<and> run_pages env fp (length images) 0 images
                \<lparr>all_outputs = [], all_images = [], processing_log = []\<rparr> = Inr st
          \<and> from_doctags_and_image_pairs env (all_outputs st) (all_images st) = Inl e"
  then have "build_document env files file_obj url_input = Inl e"
    using build_raises_pairs [of env files file_obj url_input input_path files1 images fp st e] by blast
  from process_document_raised [OF process_try_build_raises [OF this]]
  show "process_document env files file_obj url_input export_format
      = (error_text env e, None, Some (format_exc env e))" .
next
  fix input_path files1 images fp st dt e
  assume "load_model env = None
          \<and> input_source env files file_obj url_input = Inr (Inr (input_path, files1))
          \<and> snd (load_input_resource env files1 input_path) = Inr images
          \<and> images \<noteq> []
          \<and> apply_chat_template env ''Convert this page to docling.'' 1 = Inr fp
          \<and> run_pages env fp (length images) 0 images
                \<lparr>all_outputs = [], all_images = [], processing_log = []\<rparr> = Inr st
          \<and> from_doctags_and_image_pairs env (all_outputs st) (all_images st) = Inr dt
          \<and> load_from_doctags env ''ProcessedDocument'' dt = Inl e"
  then have "build_document env files file_obj url_input = Inl e"
    using build_raises_tree [of env files file_obj url_input input_path files1 images fp st dt e] by blast
  from process_document_raised [OF process_try_build_raises [OF this]]
  show "process_document env files file_obj url_input export_format
      = (error_text env e, None, Some (format_exc env e))" .
next
  fix doc images log e
  assume "build_document env files file_obj url_input = Inr (Inr (doc, images, log))
          \<and> snd (export_document env doc export_format) = Inl e"
  then have b: "build_document env files file_obj url_input = Inr (Inr (doc, images, log))"
    and x: "snd (export_document env doc export_format) = Inl e"
    by simp_all
  from process_try_export [OF b, of export_format] x
  have "process_try env files file_obj url_input export_format = Inl e" by simp
  from process_document_raised [OF this]
  show "process_document env files file_obj url_input export_format
      = (error_text env e, None, Some (format_exc env e))" .
next
  assume "load_model env = None \<and> file_obj = None \<and> py_strip url_input = []"
  then have "build_document env files file_obj url_input
      = Inr (Inl (''Please provide either a file upload or a URL'', None, None))"
    using build_no_input [of env url_input files] by simp
  from process_document_returned [OF process_try_early [OF this]]
  show "process_document env files file_obj url_input export_format
      = (''Please provide either a file upload or a URL'', None, None)" .
next
  fix input_path files1
  assume "load_model env = None
          \<and> input_source env files file_obj url_input = Inr (Inr (input_path, files1))
          \<and> snd (load_input_resource env files1 input_path) = Inr []"
  then have "build_document env files file_obj url_input
      = Inr (Inl (''No images could be extracted from the provided file or URL'', None, None))"
    using build_no_images [of env files file_obj url_input input_path files1] by blast
  from process_document_returned [OF process_try_early [OF this]]
  show "process_document env files file_obj url_input export_format
      = (''No images could be extracted from the provided file or URL'', None, None)" .
qed

theorem process_document_always_returns_witness:
  "process_document sample_env sample_files None ''https://example.org/nowhere'' ''Markdown''
     = (error_text sample_env (LibraryError ''ConnectTimeout''), None, Some (format_exc sample_env (LibraryError ''ConnectTimeout'')))
   \<and> process_document broken_env sample_files None [] ''Markdown''
     = (error_text broken_env (LibraryError ''weights''), None, Some (format_exc broken_env (LibraryError ''weights'')))
   \<and> process_document sample_env sample_files (Some PlainObj) [] ''Markdown''
     = (error_text sample_env (AttributeError ''name''), None, Some (format_exc sample_env (AttributeError ''name'')))
   \<and> process_document sample_env sample_files None ''https://example.org/missing.pdf'' ''Markdown''
     = (error_text sample_env (HTTPError 404), None, Some (format_exc sample_env (HTTPError 404)))
   \<and> process_document (sample_env\<lparr>apply_chat_template := \<lambda>prompt num_images. Inl (LibraryError ''template'')\<rparr>) sample_files None ''https://example.org/paper.pdf'' ''Markdown''
     = (error_text (sample_env\<lparr>apply_chat_template := \<lambda>prompt num_images. Inl (LibraryError ''template'')\<rparr>) (LibraryError ''template''), None, Some (format_exc (sample_env\<lparr>apply_chat_template := \<lambda>prompt num_images. Inl (LibraryError ''template'')\<rparr>) (LibraryError ''template'')))
   \<and> process_document sample_env sample_files None ''https://example.org/crash.png'' ''Markdown''
     = (error_text sample_env (LibraryError ''engine''), None, Some (format_exc sample_env (LibraryError ''engine'')))
   \<and> process_document (sample_env\<lparr>from_doctags_and_image_pairs := \<lambda>outputs images. Inl (LibraryError ''pairs'')\<rparr>) sample_files None ''https://example.org/paper.pdf'' ''Markdown''
     = (error_text (sample_env\<lparr>from_doctags_and_image_pairs := \<lambda>outputs images. Inl (LibraryError ''pairs'')\<rparr>) (LibraryError ''pairs''), None, Some (format_exc (sample_env\<lparr>from_doctags_and_image_pairs := \<lambda>outputs images. Inl (LibraryError ''pairs'')\<rparr>) (LibraryError ''pairs'')))
   \<and> process_document tree_env sample_files None ''https://example.org/blank.png'' ''Markdown''
     = (error_text tree_env (LibraryError ''MalformedTag''), None, Some (format_exc tree_env (LibraryError ''MalformedTag'')))
   \<and> process_document sample_env sample_files None ''https://example.org/open.png'' ''JSON''
     = (error_text sample_env (LibraryError ''MalformedTag''), None, Some (format_exc sample_env (LibraryError ''MalformedTag'')))
   \<and> process_document sample_env sample_files None [CHR '' '', char_of (160 :: nat), CHR 10] ''Markdown''
     = (''Please provide either a file upload or a URL'', None, None)
   \<and> process_document sample_env sample_files None ''https://example.org/empty.pdf'' ''Markdown''
     = (''No images could be extracted from the provided file or URL'', None, None)"
proof -
  let ?init = "\<lparr>all_outputs = [], all_images = [], processing_log = []\<rparr> :: string loop_state"
  have g0: "process_try sample_env sample_files None ''https://example.org/nowhere'' ''Markdown''
      = Inl (LibraryError ''ConnectTimeout'')"
    by code_simp
  note t0 = process_document_always_returns
    [of sample_env sample_files "None" "''https://example.org/nowhere''" "''Markdown''",
     THEN conjunct2, THEN conjunct1, rule_format, OF g0]
  have g1: "load_model broken_env = Some (LibraryError ''weights'')"
    by code_simp
  note t1 = process_document_always_returns
    [of broken_env sample_files "None" "[]" "''Markdown''",
     THEN conjunct2, THEN conjunct2, THEN conjunct1, rule_format, OF g1]
  have loaded: "load_model sample_env = None"
    by code_simp
  have g2: "input_source sample_env sample_files (Some PlainObj) [] = Inl (AttributeError ''name'')"
    by (simp add: input_source_def)
  from loaded g2
  have h2: "load_model sample_env = None
      \<and> input_source sample_env sample_files (Some PlainObj) [] = Inl (AttributeError ''name'')"
    by (intro conjI)
  note t2 = process_document_always_returns
    [of sample_env sample_files "Some PlainObj" "[]" "''Markdown''",
     THEN conjunct2, THEN conjunct2, THEN conjunct2, THEN conjunct1, rule_format, OF h2]
  have s_i3: "py_strip ''https://example.org/missing.pdf'' = ''https://example.org/missing.pdf''"
    by code_simp
  have i3: "input_source sample_env sample_files None ''https://example.org/missing.pdf'' = Inr (Inr (''https://example.org/missing.pdf'', sample_files))"
    by (simp add: input_source_def s_i3)
  have l3: "snd (load_input_resource sample_env sample_files ''https://example.org/missing.pdf'') = Inl (HTTPError 404)"
    by code_simp
  from loaded i3 l3
  have h3: "load_model sample_env = None
      \<and> input_source sample_env sample_files None ''https://example.org/missing.pdf'' = Inr (Inr (''https://example.org/missing.pdf'', sample_files))
      \<and> snd (load_input_resource sample_env sample_files ''https://example.org/missing.pdf'') = Inl (HTTPError 404)"
    by (intro conjI)
  note t3 = process_document_always_returns
    [of sample_env sample_files "None" "''https://example.org/missing.pdf''" "''Markdown''",
     THEN conjunct2, THEN conjunct2, THEN conjunct2, THEN conjunct2, THEN conjunct1, rule_format, OF h3]
  have s_i4: "py_strip ''https://example.org/paper.pdf'' = ''https://example.org/paper.pdf''"
    by code_simp
  have loaded4: "load_model (sample_env\<lparr>apply_chat_template := \<lambda>prompt num_images. Inl (LibraryError ''template'')\<rparr>) = None"
    by code_simp
  have i4: "input_source (sample_env\<lparr>apply_chat_template := \<lambda>prompt num_images. Inl (LibraryError ''template'')\<rparr>) sample_files None ''https://example.org/paper.pdf'' = Inr (Inr (''https://example.org/paper.pdf'', sample_files))"
    by (simp add: input_source_def s_i4)
  have l4: "snd (load_input_resource (sample_env\<lparr>apply_chat_template := \<lambda>prompt num_images. Inl (LibraryError ''template'')\<rparr>) sample_files ''https://example.org/paper.pdf'') = Inr [''hello'']"
    by code_simp
  have n4: "[''hello''] \<noteq> []"
    by simp
  have p4: "apply_chat_template (sample_env\<lparr>apply_chat_template := \<lambda>prompt num_images. Inl (LibraryError ''template'')\<rparr>) ''Convert this page to docling.'' 1 = Inl (LibraryError ''template'')"
    by code_simp
  from loaded4 i4 l4 n4 p4
  have h4: "load_model (sample_env\<lparr>apply_chat_template := \<lambda>prompt num_images. Inl (LibraryError ''template'')\<rparr>) = None
      \<and> input_source (sample_env\<lparr>apply_chat_template := \<lambda>prompt num_images. Inl (LibraryError ''template'')\<rparr>) sample_files None ''https://example.org/paper.pdf'' = Inr (Inr (''https://example.org/paper.pdf'', sample_files))
      \<and> snd (load_input_resource (sample_env\<lparr>apply_chat_template := \<lambda>prompt num_images. Inl (LibraryError ''template'')\<rparr>) sample_files ''https://example.org/paper.pdf'') = Inr [''hello'']
      \<and> [''hello''] \<noteq> []
      \<and> apply_chat_template (sample_env\<lparr>apply_chat_template := \<lambda>prompt num_images. Inl (LibraryError ''template'')\<rparr>) ''Convert this page to docling.'' 1 = Inl (LibraryError ''template'')"
    by (intro conjI)
  note t4 = process_document_always_returns
    [of "sample_env\<lparr>apply_chat_template := \<lambda>prompt num_images. Inl (LibraryError ''template'')\<rparr>" sample_files "None" "''https://example.org/paper.pdf''" "''Markdown''",
     THEN conjunct2, THEN conjunct2, THEN conjunct2, THEN conjunct2, THEN conjunct2, THEN conjunct1, rule_format, OF h4]
  have s_i5: "py_strip ''https://example.org/crash.png'' = ''https://example.org/crash.png''"
    by code_simp
  have i5: "input_source sample_env sample_files None ''https://example.org/crash.png'' = Inr (Inr (''https://example.org/crash.png'', sample_files))"
    by (simp add: input_source_def s_i5)
  have l5: "snd (load_input_resource sample_env sample_files ''https://example.org/crash.png'') = Inr [''crash'']"
    by code_simp
  have n5: "[''crash''] \<noteq> []"
    by simp
  have p5: "apply_chat_template sample_env ''Convert this page to docling.'' 1 = Inr ''<user>Convert this page to docling.''"
    by code_simp
  have r5: "run_pages sample_env ''<user>Convert this page to docling.'' (length [''crash'']) 0 [''crash''] ?init
           = Inl (LibraryError ''engine'')"
    by code_simp
  from loaded i5 l5 n5 p5 r5
  have h5: "load_model sample_env = None
      \<and> input_source sample_env sample_files None ''https://example.org/crash.png'' = Inr (Inr (''https://example.org/crash.png'', sample_files))
      \<and> snd (load_input_resource sample_env sample_files ''https://example.org/crash.png'') = Inr [''crash'']
      \<and> [''crash''] \<noteq> []
      \<and> apply_chat_template sample_env ''Convert this page to docling.'' 1 = Inr ''<user>Convert this page to docling.''
      \<and> run_pages sample_env ''<user>Convert this page to docling.'' (length [''crash'']) 0 [''crash''] ?init
           = Inl (LibraryError ''engine'')"
    by (intro conjI)
  note t5 = process_document_always_returns
    [of sample_env sample_files "None" "''https://example.org/crash.png''" "''Markdown''",
     THEN conjunct2, THEN conjunct2, THEN conjunct2, THEN conjunct2, THEN conjunct2, THEN conjunct2, THEN conjunct1, rule_format, OF h5]
  have s_i6: "py_strip ''https://example.org/paper.pdf'' = ''https://example.org/paper.pdf''"
    by code_simp
  have loaded6: "load_model (sample_env\<lparr>from_doctags_and_image_pairs := \<lambda>outputs images. Inl (LibraryError ''pairs'')\<rparr>) = None"
    by code_simp
  have i6: "input_source (sample_env\<lparr>from_doctags_and_image_pairs := \<lambda>outputs images. Inl (LibraryError ''pairs'')\<rparr>) sample_files None ''https://example.org/paper.pdf'' = Inr (Inr (''https://example.org/paper.pdf'', sample_files))"
    by (simp add: input_source_def s_i6)
  have l6: "snd (load_input_resource (sample_env\<lparr>from_doctags_and_image_pairs := \<lambda>outputs images. Inl (LibraryError ''pairs'')\<rparr>) sample_files ''https://example.org/paper.pdf'') = Inr [''hello'']"
    by code_simp
  have p6: "apply_chat_template (sample_env\<lparr>from_doctags_and_image_pairs := \<lambda>outputs images. Inl (LibraryError ''pairs'')\<rparr>) ''Convert this page to docling.'' 1 = Inr ''<user>Convert this page to docling.''"
    by code_simp
  have r6: "run_pages (sample_env\<lparr>from_doctags_and_image_pairs := \<lambda>outputs images. Inl (LibraryError ''pairs'')\<rparr>) ''<user>Convert this page to docling.'' (length [''hello'']) 0 [''hello''] ?init
           = Inr (page_done ?init 0 1 ''hello'' ''<doctag>Hello</doctag>'')"
    by code_simp
  have a6: "from_doctags_and_image_pairs (sample_env\<lparr>from_doctags_and_image_pairs := \<lambda>outputs images. Inl (LibraryError ''pairs'')\<rparr>) (all_outputs (page_done ?init 0 1 ''hello'' ''<doctag>Hello</doctag>'')) (all_images (page_done ?init 0 1 ''hello'' ''<doctag>Hello</doctag>''))
           = Inl (LibraryError ''pairs'')"
    by code_simp
  from loaded6 i6 l6 n4 p6 r6 a6
  have h6: "load_model (sample_env\<lparr>from_doctags_and_image_pairs := \<lambda>outputs images. Inl (LibraryError ''pairs'')\<rparr>) = None
      \<and> input_source (sample_env\<lparr>from_doctags_and_image_pairs := \<lambda>outputs images. Inl (LibraryError ''pairs'')\<rparr>) sample_files None ''https://example.org/paper.pdf'' = Inr (Inr (''https://example.org/paper.pdf'', sample_files))
      \<and> snd (load_input_resource (sample_env\<lparr>from_doctags_and_image_pairs := \<lambda>outputs images. Inl (LibraryError ''pairs'')\<rparr>) sample_files ''https://example.org/paper.pdf'') = Inr [''hello'']
      \<and> [''hello''] \<noteq> []
      \<and> apply_chat_template (sample_env\<lparr>from_doctags_and_image_pairs := \<lambda>outputs images. Inl (LibraryError ''pairs'')\<rparr>) ''Convert this page to docling.'' 1 = Inr ''<user>Convert this page to docling.''
      \<and> run_pages (sample_env\<lparr>from_doctags_and_image_pairs := \<lambda>outputs images. Inl (LibraryError ''pairs'')\<rparr>) ''<user>Convert this page to docling.'' (length [''hello'']) 0 [''hello''] ?init
           = Inr (page_done ?init 0 1 ''hello'' ''<doctag>Hello</doctag>'')
      \<and> from_doctags_and_image_pairs (sample_env\<lparr>from_doctags_and_image_pairs := \<lambda>outputs images. Inl (LibraryError ''pairs'')\<rparr>) (all_outputs (page_done ?init 0 1 ''hello'' ''<doctag>Hello</doctag>'')) (all_images (page_done ?init 0 1 ''hello'' ''<doctag>Hello</doctag>''))
           = Inl (LibraryError ''pairs'')"
    by (intro conjI)
  note t6 = process_document_always_returns
    [of "sample_env\<lparr>from_doctags_and_image_pairs := \<lambda>outputs images. Inl (LibraryError ''pairs'')\<rparr>" sample_files "None" "''https://example.org/paper.pdf''" "''Markdown''",
     THEN conjunct2, THEN conjunct2, THEN conjunct2, THEN conjunct2, THEN conjunct2, THEN conjunct2, THEN conjunct2, THEN conjunct1, rule_format, OF h6]
  have s_i7: "py_strip ''https://example.org/blank.png'' = ''https://example.org/blank.png''"
    by code_simp
  have loaded7: "load_model tree_env = None"
    by code_simp
  have i7: "input_source tree_env sample_files None ''https://example.org/blank.png'' = Inr (Inr (''https://example.org/blank.png'', sample_files))"
    by (simp add: input_source_def s_i7)
  have l7: "snd (load_input_resource tree_env sample_files ''https://example.org/blank.png'') = Inr [''blank'']"
    by code_simp
  have n7: "[''blank''] \<noteq> []"
    by simp
  have p7: "apply_chat_template tree_env ''Convert this page to docling.'' 1 = Inr ''<user>Convert this page to docling.''"
    by code_simp
  have r7: "run_pages tree_env ''<user>Convert this page to docling.'' (length [''blank'']) 0 [''blank''] ?init
           = Inr (page_done ?init 0 1 ''blank'' [])"
    by code_simp
  have a7: "from_doctags_and_image_pairs tree_env (all_outputs (page_done ?init 0 1 ''blank'' [])) (all_images (page_done ?init 0 1 ''blank'' []))
           = Inr [([], ''blank'')]"
    by code_simp
  have d7: "load_from_doctags tree_env ''ProcessedDocument'' [([], ''blank'')]
           = Inl (LibraryError ''MalformedTag'')"
    by code_simp
  from loaded7 i7 l7 n7 p7 r7 a7 d7
  have h7: "load_model tree_env = None
      \<and> input_source tree_env sample_files None ''https://example.org/blank.png'' = Inr (Inr (''https://example.org/blank.png'', sample_files))
      \<and> snd (load_input_resource tree_env sample_files ''https://example.org/blank.png'') = Inr [''blank'']
      \<and> [''blank''] \<noteq> []
      \<and> apply_chat_template tree_env ''Convert this page to docling.'' 1 = Inr ''<user>Convert this page to docling.''
      \<and> run_pages tree_env ''<user>Convert this page to docling.'' (length [''blank'']) 0 [''blank''] ?init
           = Inr (page_done ?init 0 1 ''blank'' [])
      \<and> from_doctags_and_image_pairs tree_env (all_outputs (page_done ?init 0 1 ''blank'' [])) (all_images (page_done ?init 0 1 ''blank'' []))
           = Inr [([], ''blank'')]
      \<and> load_from_doctags tree_env ''ProcessedDocument'' [([], ''blank'')]
           = Inl (LibraryError ''MalformedTag'')"
    by (intro conjI)
  note t7 = process_document_always_returns
    [of tree_env sample_files "None" "''https://example.org/blank.png''" "''Markdown''",
     THEN conjunct2, THEN conjunct2, THEN conjunct2, THEN conjunct2, THEN conjunct2, THEN conjunct2, THEN conjunct2, THEN conjunct2, THEN conjunct1, rule_format, OF h7]
  have b8: "build_document sample_env sample_files None ''https://example.org/open.png''
        = Inr (Inr ([(''<doctag>open'', ''open'')], [''open''],
                    processing_log (page_done ?init 0 1 ''open'' ''<doctag>open'')))"
    by code_simp
  have x8: "snd (export_document sample_env [(''<doctag>open'', ''open'')] ''JSON'')
        = Inl (LibraryError ''MalformedTag'')"
    by code_simp
  from b8 x8
  have h8: "build_document sample_env sample_files None ''https://example.org/open.png''
        = Inr (Inr ([(''<doctag>open'', ''open'')], [''open''],
                    processing_log (page_done ?init 0 1 ''open'' ''<doctag>open'')))
      \<and> snd (export_document sample_env [(''<doctag>open'', ''open'')] ''JSON'')
        = Inl (LibraryError ''MalformedTag'')"
    by (intro conjI)
  note t8 = process_document_always_returns
    [of sample_env sample_files "None" "''https://example.org/open.png''" "''JSON''",
     THEN conjunct2, THEN conjunct2, THEN conjunct2, THEN conjunct2, THEN conjunct2, THEN conjunct2, THEN conjunct2, THEN conjunct2, THEN conjunct2, THEN conjunct1, rule_format, OF h8]
  have f9: "(None :: upload option) = None"
    by simp
  have s9: "py_strip [CHR '' '', char_of (160 :: nat), CHR 10] = []"
    by code_simp
  from loaded f9 s9
  have h9: "load_model sample_env = None
      \<and> (None :: upload option) = None
      \<and> py_strip [CHR '' '', char_of (160 :: nat), CHR 10] = []"
    by (intro conjI)
  note t9 = process_document_always_returns
    [of sample_env sample_files "None" "[CHR '' '', char_of (160 :: nat), CHR 10]" "''Markdown''",
     THEN conjunct2, THEN conjunct2, THEN conjunct2, THEN conjunct2, THEN conjunct2, THEN conjunct2, THEN conjunct2, THEN conjunct2, THEN conjunct2, THEN conjunct2, THEN conjunct1, rule_format, OF h9]
  have s_i10: "py_strip ''https://example.org/empty.pdf'' = ''https://example.org/empty.pdf''"
    by code_simp
  have i10: "input_source sample_env sample_files None ''https://example.org/empty.pdf'' = Inr (Inr (''https://example.org/empty.pdf'', sample_files))"
    by (simp add: input_source_def s_i10)
  have l10: "snd (load_input_resource sample_env sample_files ''https://example.org/empty.pdf'') = Inr []"
    by code_simp
  from loaded i10 l10
  have h10: "load_model sample_env = None
      \<and> input_source sample_env sample_files None ''https://example.org/empty.pdf'' = Inr (Inr (''https://example.org/empty.pdf'', sample_files))
      \<and> snd (load_input_resource sample_env sample_files ''https://example.org/empty.pdf'') = Inr []"
    by (intro conjI)
  note t10 = process_document_always_returns
    [of sample_env sample_files "None" "''https://example.org/empty.pdf''" "''Markdown''",
     THEN conjunct2, THEN conjunct2, THEN conjunct2, THEN conjunct2, THEN conjunct2, THEN conjunct2, THEN conjunct2, THEN conjunct2, THEN conjunct2, THEN conjunct2, THEN conjunct2, rule_format, OF h10]
  from t0 t1 t2 t3 t4 t5 t6 t7 t8 t9 t10
  show ?thesis by (intro conjI)
qed

section \<open>Properties of load_input_resource\<close>

subsection \<open>Auxiliary facts\<close>

lemma raise_for_status_eq:
  "raise_for_status r =
     (if 400 \<le> status_code r \<and> status_code r < 600 then Some (HTTPError (status_code r)) else None)"
  by (auto simp: raise_for_status_def)

lemma load_parse_raises:
  "urlparse_scheme env p = Inl e \<Longrightarrow> load_input_resource env files p = ([], Inl e)"
  by (simp add: load_input_resource_def)

lemma load_remote_get_raises:
  "urlparse_scheme env p = Inr scheme \<Longrightarrow> scheme \<noteq> [] \<Longrightarrow>
   requests_get env p True 10 = Inl e \<Longrightarrow>
   load_input_resource env files p = ([HttpGet p True 10], Inl e)"
  by (simp add: load_input_resource_def)

lemma load_remote_bad_status:
  "urlparse_scheme env p = Inr scheme \<Longrightarrow> scheme \<noteq> [] \<Longrightarrow>
   requests_get env p True 10 = Inr r \<Longrightarrow>
   400 \<le> status_code r \<and> status_code r < 600 \<Longrightarrow>
   load_input_resource env files p = ([HttpGet p True 10], Inl (HTTPError (status_code r)))"
  by (simp add: load_input_resource_def raise_for_status_eq)

lemma load_remote_read_raises:
  "urlparse_scheme env p = Inr scheme \<Longrightarrow> scheme \<noteq> [] \<Longrightarrow>
   requests_get env p True 10 = Inr r \<Longrightarrow>
   \<not> (400 \<le> status_code r \<and> status_code r < 600) \<Longrightarrow>
   content r = Inl e \<Longrightarrow>
   load_input_resource env files p = ([HttpGet p True 10], Inl e)"
  by (auto simp: load_input_resource_def raise_for_status_eq)

lemma load_remote_body:
  "urlparse_scheme env p = Inr scheme \<Longrightarrow> scheme \<noteq> [] \<Longrightarrow>
   requests_get env p True 10 = Inr r \<Longrightarrow>
   \<not> (400 \<le> status_code r \<and> status_code r < 600) \<Longrightarrow>
   content r = Inr body \<Longrightarrow>
   load_input_resource env files p =
     (if take 4 body = ''%PDF''
      then ([HttpGet p True 10, ConvertFromBytes body], convert_from_bytes env body)
      else ([HttpGet p True 10, ImageOpenBytes body],
            map_sum id (\<lambda>img. [img]) (image_open env body)))"
  by (auto simp: load_input_resource_def raise_for_status_eq split: sum.splits)

lemma load_local:
  "urlparse_scheme env p = Inr [] \<Longrightarrow>
   load_input_resource env files p =
     (if py_lower (path_suffix p) = ''.pdf''
      then ([ConvertFromPath (path_str p)], convert_from_path env files (path_str p))
      else ([ImageOpenPath (path_str p)],
            map_sum id (\<lambda>img. [img]) (image_open_path env files (path_str p))))"
  by (simp add: load_input_resource_def Let_def split: sum.splits)

lemma load_remote_first_call:
  assumes "urlparse_scheme env p = Inr scheme" and "scheme \<noteq> []"
  shows "\<exists>later. fst (load_input_resource env files p) = HttpGet p True 10 # later"
proof (cases "requests_get env p True 10")
  case (Inl e)
  from load_remote_get_raises [OF assms this] show ?thesis by simp
next
  case (Inr r)
  show ?thesis
  proof (cases "400 \<le> status_code r \<and> status_code r < 600")
    case True
    from load_remote_bad_status [OF assms Inr True] show ?thesis by simp
  next
    case False
    show ?thesis
    proof (cases "content r")
      case (Inl e)
      from load_remote_read_raises [OF assms Inr False this] show ?thesis by simp
    next
      case body: (Inr body)
      from load_remote_body [OF assms Inr False body] show ?thesis by simp
    qed
  qed
qed

subsection \<open>Remote or local\<close>

text \<open>
  C8, as stated, fails for a reference that does not parse: \<open>urlparse\<close> raises
  \<open>ValueError\<close> on a host with an unmatched square bracket, and then the reference is
  handled neither as a URL nor as a local path; the load fails.
\<close>

theorem unparsable_reference_counterexample:
  "urlparse_scheme sample_env ''http://[::1/a.pdf'' = Inl (ValueError ''Invalid IPv6 URL'')
   \<and> load_input_resource sample_env sample_files ''http://[::1/a.pdf''
        = ([], Inl (ValueError ''Invalid IPv6 URL''))"
  by code_simp

text \<open>
  C8, amended. The loader goes to the network exactly when the reference parses
  with a non-empty scheme, and then its first call is the HTTP GET of the reference;
  it handles the reference as a local path (one call on that path as pathlib writes
  it, none to the network) exactly when the reference parses with an empty scheme;
  and when the reference does not parse, the load fails with the parser's exception
  and no call is made.
\<close>

theorem remote_iff_scheme:
  "((\<exists>url stream timeout. HttpGet url stream timeout \<in> set (fst (load_input_resource env files p)))
      = (\<exists>scheme. urlparse_scheme env p = Inr scheme \<and> scheme \<noteq> []))
   \<and> ((ConvertFromPath (path_str p) \<in> set (fst (load_input_resource env files p))
         \<or> ImageOpenPath (path_str p) \<in> set (fst (load_input_resource env files p)))
      = (urlparse_scheme env p = Inr []))
   \<and> ((\<exists>scheme. urlparse_scheme env p = Inr scheme \<and> scheme \<noteq> []
          \<and> (\<exists>later. fst (load_input_resource env files p) = HttpGet p True 10 # later))
       \<or> (urlparse_scheme env p = Inr []
           \<and> (fst (load_input_resource env files p) = [ConvertFromPath (path_str p)]
                \<or> fst (load_input_resource env files p) = [ImageOpenPath (path_str p)]))
       \<or> (\<exists>e. urlparse_scheme env p = Inl e
           \<and> load_input_resource env files p = ([], Inl e)))"
proof (cases "urlparse_scheme env p")
  case (Inl e)
  from load_parse_raises [OF this, of files] Inl show ?thesis by simp
next
  case (Inr scheme)
  show ?thesis
  proof (cases "scheme = []")
    case True
    with Inr have parsed: "urlparse_scheme env p = Inr []" by simp
    from load_local [OF parsed, of files]
    have "fst (load_input_resource env files p) = [ConvertFromPath (path_str p)]
        \<or> fst (load_input_resource env files p) = [ImageOpenPath (path_str p)]"
      by (simp split: if_splits)
    with parsed show ?thesis by auto
  next
    case False
    from load_remote_first_call [OF Inr False, of files]
    obtain later where tr: "fst (load_input_resource env files p) = HttpGet p True 10 # later"
      by blast
    have no_local: "ConvertFromPath (path_str p) \<notin> set later
        \<and> ImageOpenPath (path_str p) \<notin> set later"
    proof (cases "requests_get env p True 10")
      case (Inl e)
      from load_remote_get_raises [OF Inr False this, of files] tr show ?thesis by simp
    next
      case got: (Inr r)
      show ?thesis
      proof (cases "400 \<le> status_code r \<and> status_code r < 600")
        case True
        from load_remote_bad_status [OF Inr False got True, of files] tr show ?thesis by simp
      next
        case ok: False
        show ?thesis
        proof (cases "content r")
          case (Inl e)
          from load_remote_read_raises [OF Inr False got ok this, of files] tr
          show ?thesis by simp
        next
          case body: (Inr body)
          from load_remote_body [OF Inr False got ok body, of files] tr
          show ?thesis by (auto split: if_splits)
        qed
      qed
    qed
    from tr have "HttpGet p True 10 \<in> set (fst (load_input_resource env files p))" by simp
    then have net: "\<exists>url stream timeout.
        HttpGet url stream timeout \<in> set (fst (load_input_resource env files p))"
      by blast
    from tr no_local
    have loc: "\<not> (ConvertFromPath (path_str p) \<in> set (fst (load_input_resource env files p))
        \<or> ImageOpenPath (path_str p) \<in> set (fst (load_input_resource env files p)))"
      by simp
    from Inr False net loc tr show ?thesis by auto
  qed
qed

theorem remote_iff_scheme_witness:
  "urlparse_scheme sample_env ''https://example.org/paper.pdf'' = Inr ''https''
   \<and> (\<exists>url stream timeout. HttpGet url stream timeout
          \<in> set (fst (load_input_resource sample_env sample_files ''https://example.org/paper.pdf'')))
   \<and> urlparse_scheme sample_env ''./papers//paper.pdf'' = Inr []
   \<and> \<not> (\<exists>url stream timeout. HttpGet url stream timeout
          \<in> set (fst (load_input_resource sample_env sample_files ''./papers//paper.pdf'')))
   \<and> (ConvertFromPath ''papers/paper.pdf''
          \<in> set (fst (load_input_resource sample_env sample_files ''./papers//paper.pdf''))
        \<or> ImageOpenPath ''papers/paper.pdf''
          \<in> set (fst (load_input_resource sample_env sample_files ''./papers//paper.pdf'')))"
proof -
  have s1: "urlparse_scheme sample_env ''https://example.org/paper.pdf'' = Inr ''https''"
    by code_simp
  have s2: "urlparse_scheme sample_env ''./papers//paper.pdf'' = Inr []" by code_simp
  have norm: "path_str ''./papers//paper.pdf'' = ''papers/paper.pdf''" by code_simp
  note t1 = remote_iff_scheme [of sample_env sample_files "''https://example.org/paper.pdf''",
      THEN conjunct1]
  note t2 = remote_iff_scheme [of sample_env sample_files "''./papers//paper.pdf''", THEN conjunct1]
  note t3 = remote_iff_scheme [of sample_env sample_files "''./papers//paper.pdf''",
      THEN conjunct2, THEN conjunct1, unfolded norm]
  from t1 s1 have a: "\<exists>url stream timeout. HttpGet url stream timeout
      \<in> set (fst (load_input_resource sample_env sample_files ''https://example.org/paper.pdf''))"
    by simp
  from t2 s2 have b: "\<not> (\<exists>url stream timeout. HttpGet url stream timeout
      \<in> set (fst (load_input_resource sample_env sample_files ''./papers//paper.pdf'')))"
    by simp
  from t3 s2 have c: "ConvertFromPath ''papers/paper.pdf''
          \<in> set (fst (load_input_resource sample_env sample_files ''./papers//paper.pdf''))
        \<or> ImageOpenPath ''papers/paper.pdf''
          \<in> set (fst (load_input_resource sample_env sample_files ''./papers//paper.pdf''))"
    by simp
  from s1 a s2 b c show ?thesis by (intro conjI)
qed

subsection \<open>The remote fetch\<close>

text \<open>
  C7, as stated, fails for a status that is neither a success nor an error:
  \<open>raise_for_status\<close> raises for 4xx and 5xx only, so a final answer with status 300
  is loaded from its body.
\<close>

theorem redirect_status_counterexample:
  "urlparse_scheme sample_env ''https://example.org/choices'' = Inr ''https''
   \<and> requests_get sample_env ''https://example.org/choices'' True 10
        = Inr \<lparr>status_code = 300, content = Inr ''hello''\<rparr>
   \<and> load_input_resource sample_env sample_files ''https://example.org/choices''
        = ([HttpGet ''https://example.org/choices'' True 10, ImageOpenBytes ''hello''],
           Inr [''hello''])"
  by code_simp

text \<open>
  C7, amended. For a remote reference the first call is
  \<open>requests.get(reference, stream=True, timeout=10)\<close>. If that call raises (a timeout,
  a failed connection), the load fails with that exception; if the answer has a 4xx
  or 5xx status, the load fails with \<open>HTTPError\<close>; if reading the body raises, the load
  fails with that exception; in all three cases nothing is decoded. An answer with
  any other status whose body can be read goes on to decode the body.
\<close>

theorem remote_fetch_failures:
  assumes "urlparse_scheme env p = Inr scheme" and "scheme \<noteq> []"
  shows "(\<exists>later. fst (load_input_resource env files p) = HttpGet p True 10 # later)
       \<and> (\<forall>e. requests_get env p True 10 = Inl e
              \<longrightarrow> load_input_resource env files p = ([HttpGet p True 10], Inl e))
       \<and> (\<forall>r. requests_get env p True 10 = Inr r
                \<and> 400 \<le> status_code r \<and> status_code r < 600
              \<longrightarrow> load_input_resource env files p
                    = ([HttpGet p True 10], Inl (HTTPError (status_code r))))
       \<and> (\<forall>r e. requests_get env p True 10 = Inr r
                \<and> \<not> (400 \<le> status_code r \<and> status_code r < 600)
                \<and> content r = Inl e
              \<longrightarrow> load_input_resource env files p = ([HttpGet p True 10], Inl e))
       \<and> (\<forall>r body. requests_get env p True 10 = Inr r
                \<and> \<not> (400 \<le> status_code r \<and> status_code r < 600)
                \<and> content r = Inr body
              \<longrightarrow> fst (load_input_resource env files p)
                    = [HttpGet p True 10,
                       if take 4 body = ''%PDF'' then ConvertFromBytes body
                       else ImageOpenBytes body])"
proof (intro conjI allI impI)
  show "\<exists>later. fst (load_input_resource env files p) = HttpGet p True 10 # later"
    using assms by (rule load_remote_first_call)
next
  fix e assume "requests_get env p True 10 = Inl e"
  from load_remote_get_raises [OF assms this]
  show "load_input_resource env files p = ([HttpGet p True 10], Inl e)" .
next
  fix r
  assume a: "requests_get env p True 10 = Inr r \<and> 400 \<le> status_code r \<and> status_code r < 600"
  then have got: "requests_get env p True 10 = Inr r"
    and bad: "400 \<le> status_code r \<and> status_code r < 600" by simp_all
  from load_remote_bad_status [OF assms got bad]
  show "load_input_resource env files p
      = ([HttpGet p True 10], Inl (HTTPError (status_code r)))" .
next
  fix r e
  assume a: "requests_get env p True 10 = Inr r
      \<and> \<not> (400 \<le> status_code r \<and> status_code r < 600) \<and> content r = Inl e"
  then have got: "requests_get env p True 10 = Inr r"
    and ok: "\<not> (400 \<le> status_code r \<and> status_code r < 600)"
    and rd: "content r = Inl e" by simp_all
  from load_remote_read_raises [OF assms got ok rd]
  show "load_input_resource env files p = ([HttpGet p True 10], Inl e)" .
next
  fix r body
  assume a: "requests_get env p True 10 = Inr r
      \<and> \<not> (400 \<le> status_code r \<and> status_code r < 600) \<and> content r = Inr body"
  then have got: "requests_get env p True 10 = Inr r"
    and ok: "\<not> (400 \<le> status_code r \<and> status_code r < 600)"
    and rd: "content r = Inr body" by simp_all
  from load_remote_body [OF assms got ok rd]
  show "fst (load_input_resource env files p)
      = [HttpGet p True 10,
         if take 4 body = ''%PDF'' then ConvertFromBytes body else ImageOpenBytes body]"
    by simp
qed

theorem remote_fetch_failures_witness:
  "load_input_resource sample_env sample_files ''https://example.org/missing.pdf''
     = ([HttpGet ''https://example.org/missing.pdf'' True 10], Inl (HTTPError 404))
   \<and> load_input_resource sample_env sample_files ''https://slow.example.org/a.pdf''
     = ([HttpGet ''https://slow.example.org/a.pdf'' True 10], Inl (LibraryError ''ConnectTimeout''))
   \<and> fst (load_input_resource sample_env sample_files ''https://example.org/report.png'')
     = [HttpGet ''https://example.org/report.png'' True 10, ConvertFromBytes ''%PDF|hello|split'']"
proof -
  let ?gone = "\<lparr>status_code = 404, content = Inr ''%PDF|hello''\<rparr>"
  let ?good = "\<lparr>status_code = 200, content = Inr ''%PDF|hello|split''\<rparr>"
  have https: "''https'' \<noteq> []" by simp
  have s1: "urlparse_scheme sample_env ''https://example.org/missing.pdf'' = Inr ''https''"
    by code_simp
  have s2: "urlparse_scheme sample_env ''https://slow.example.org/a.pdf'' = Inr ''https''"
    by code_simp
  have s3: "urlparse_scheme sample_env ''https://example.org/report.png'' = Inr ''https''"
    by code_simp
  have g1: "requests_get sample_env ''https://example.org/missing.pdf'' True 10 = Inr ?gone
      \<and> 400 \<le> status_code ?gone \<and> status_code ?gone < 600"
    by code_simp
  have g2: "requests_get sample_env ''https://slow.example.org/a.pdf'' True 10
      = Inl (LibraryError ''ConnectTimeout'')"
    by code_simp
  have g3: "requests_get sample_env ''https://example.org/report.png'' True 10 = Inr ?good
      \<and> \<not> (400 \<le> status_code ?good \<and> status_code ?good < 600)
      \<and> content ?good = Inr ''%PDF|hello|split''"
    by code_simp
  have c3: "(if take 4 ''%PDF|hello|split'' = ''%PDF'' then ConvertFromBytes ''%PDF|hello|split''
             else ImageOpenBytes ''%PDF|hello|split'') = ConvertFromBytes ''%PDF|hello|split''"
    by simp
  note t1 = remote_fetch_failures [OF s1 https, of sample_files, THEN conjunct2, THEN conjunct2,
      THEN conjunct1, rule_format, OF g1]
  note t2 = remote_fetch_failures [OF s2 https, of sample_files, THEN conjunct2, THEN conjunct1,
      rule_format, OF g2]
  note t3 = remote_fetch_failures [OF s3 https, of sample_files, THEN conjunct2, THEN conjunct2,
      THEN conjunct2, THEN conjunct2, rule_format, OF g3]
  have v1: "status_code ?gone = 404" by simp
  show ?thesis
    using t1 [unfolded v1] t2 t3 [unfolded c3] by (intro conjI)
qed

subsection \<open>PDF or image\<close>

text \<open>
  C1, as stated, fails for local paths: the bytes of a local file are not looked at.
  The local file \<open>report.png\<close> that holds a PDF is opened as an image, and the local
  file \<open>scan.pdf\<close> that holds no PDF is handed to the PDF converter.
\<close>

theorem local_detection_by_extension_counterexample:
  "urlparse_scheme sample_env ''report.png'' = Inr []
   \<and> map_option (take 4) (sample_files ''report.png'') = Some ''%PDF''
   \<and> load_input_resource sample_env sample_files ''report.png''
        = ([ImageOpenPath ''report.png''], Inl (LibraryError ''UnidentifiedImageError''))
   \<and> urlparse_scheme sample_env ''scan.pdf'' = Inr []
   \<and> map_option (take 4) (sample_files ''scan.pdf'') = Some ''hell''
   \<and> load_input_resource sample_env sample_files ''scan.pdf''
        = ([ConvertFromPath ''scan.pdf''], Inl (LibraryError ''PDFPageCountError''))"
  by code_simp

text \<open>
  C1, amended. For a remote reference whose fetch succeeded, the first 4 bytes of
  the fetched content decide: \<open>%PDF\<close> sends the content to the PDF converter (all its
  pages), anything else is opened as one image, whatever the URL looks like. For a
  local path the extension decides: a suffix that is \<open>.pdf\<close> in any letter case sends
  the path, as pathlib writes it, to the PDF converter, any other path is opened as
  one image.
\<close>

theorem detection_by_origin:
  "(urlparse_scheme env p = Inr scheme \<and> scheme \<noteq> []
      \<and> requests_get env p True 10 = Inr r
      \<and> raise_for_status r = None \<and> content r = Inr body
    \<longrightarrow> load_input_resource env files p =
          (if take 4 body = ''%PDF''
           then ([HttpGet p True 10, ConvertFromBytes body], convert_from_bytes env body)
           else ([HttpGet p True 10, ImageOpenBytes body],
                 map_sum id (\<lambda>img. [img]) (image_open env body))))
   \<and> (urlparse_scheme env p = Inr []
    \<longrightarrow> load_input_resource env files p =
          (if py_lower (path_suffix p) = ''.pdf''
           then ([ConvertFromPath (path_str p)], convert_from_path env files (path_str p))
           else ([ImageOpenPath (path_str p)],
                 map_sum id (\<lambda>img. [img]) (image_open_path env files (path_str p)))))"
proof (intro conjI impI)
  assume a: "urlparse_scheme env p = Inr scheme \<and> scheme \<noteq> []
      \<and> requests_get env p True 10 = Inr r
      \<and> raise_for_status r = None \<and> content r = Inr body"
  then have parsed: "urlparse_scheme env p = Inr scheme" and remote: "scheme \<noteq> []"
    and got: "requests_get env p True 10 = Inr r" and rd: "content r = Inr body"
    by simp_all
  from a have ok: "\<not> (400 \<le> status_code r \<and> status_code r < 600)"
    by (simp add: raise_for_status_eq split: if_splits)
  from load_remote_body [OF parsed remote got ok rd]
  show "load_input_resource env files p =
          (if take 4 body = ''%PDF''
           then ([HttpGet p True 10, ConvertFromBytes body], convert_from_bytes env body)
           else ([HttpGet p True 10, ImageOpenBytes body],
                 map_sum id (\<lambda>img. [img]) (image_open env body)))" .
next
  assume "urlparse_scheme env p = Inr []"
  then show "load_input_resource env files p =
          (if py_lower (path_suffix p) = ''.pdf''
           then ([ConvertFromPath (path_str p)], convert_from_path env files (path_str p))
           else ([ImageOpenPath (path_str p)],
                 map_sum id (\<lambda>img. [img]) (image_open_path env files (path_str p))))"
    by (rule load_local)
qed

theorem detection_by_origin_witness:
  "load_input_resource sample_env sample_files ''https://example.org/report.png''
     = ([HttpGet ''https://example.org/report.png'' True 10, ConvertFromBytes ''%PDF|hello|split''],
        Inr [''hello'', ''split''])
   \<and> load_input_resource sample_env sample_files ''https://example.org/paper.pdf''
     = ([HttpGet ''https://example.org/paper.pdf'' True 10, ImageOpenBytes ''hello''],
        Inr [''hello''])
   \<and> load_input_resource sample_env sample_files ''./book.PDF''
     = ([ConvertFromPath ''book.PDF''], Inr [''hello'', ''split'', ''hello''])
   \<and> load_input_resource sample_env sample_files ''report.png''
     = ([ImageOpenPath ''report.png''], Inl (LibraryError ''UnidentifiedImageError''))"
proof -
  let ?r1 = "\<lparr>status_code = 200, content = Inr ''%PDF|hello|split''\<rparr>"
  let ?r2 = "\<lparr>status_code = 200, content = Inr ''hello''\<rparr>"
  have h1: "urlparse_scheme sample_env ''https://example.org/report.png'' = Inr ''https''
      \<and> ''https'' \<noteq> []
      \<and> requests_get sample_env ''https://example.org/report.png'' True 10 = Inr ?r1
      \<and> raise_for_status ?r1 = None \<and> content ?r1 = Inr ''%PDF|hello|split''"
    by code_simp
  have h2: "urlparse_scheme sample_env ''https://example.org/paper.pdf'' = Inr ''https''
      \<and> ''https'' \<noteq> []
      \<and> requests_get sample_env ''https://example.org/paper.pdf'' True 10 = Inr ?r2
      \<and> raise_for_status ?r2 = None \<and> content ?r2 = Inr ''hello''"
    by code_simp
  have h3: "urlparse_scheme sample_env ''./book.PDF'' = Inr []" by code_simp
  have h4: "urlparse_scheme sample_env ''report.png'' = Inr []" by code_simp
  have v1: "(if take 4 ''%PDF|hello|split'' = ''%PDF''
           then ([HttpGet ''https://example.org/report.png'' True 10,
                  ConvertFromBytes ''%PDF|hello|split''],
                 convert_from_bytes sample_env ''%PDF|hello|split'')
           else ([HttpGet ''https://example.org/report.png'' True 10,
                  ImageOpenBytes ''%PDF|hello|split''],
                 map_sum id (\<lambda>img. [img]) (image_open sample_env ''%PDF|hello|split'')))
     = ([HttpGet ''https://example.org/report.png'' True 10, ConvertFromBytes ''%PDF|hello|split''],
        Inr [''hello'', ''split''])"
    by code_simp
  have v2: "(if take 4 ''hello'' = ''%PDF''
           then ([HttpGet ''https://example.org/paper.pdf'' True 10, ConvertFromBytes ''hello''],
                 convert_from_bytes sample_env ''hello'')
           else ([HttpGet ''https://example.org/paper.pdf'' True 10, ImageOpenBytes ''hello''],
                 map_sum id (\<lambda>img. [img]) (image_open sample_env ''hello'')))
     = ([HttpGet ''https://example.org/paper.pdf'' True 10, ImageOpenBytes ''hello''],
        Inr [''hello''])"
    by code_simp
  have v3: "(if py_lower (path_suffix ''./book.PDF'') = ''.pdf''
           then ([ConvertFromPath (path_str ''./book.PDF'')],
                 convert_from_path sample_env sample_files (path_str ''./book.PDF''))
           else ([ImageOpenPath (path_str ''./book.PDF'')],
                 map_sum id (\<lambda>img. [img])
                   (image_open_path sample_env sample_files (path_str ''./book.PDF''))))
     = ([ConvertFromPath ''book.PDF''], Inr [''hello'', ''split'', ''hello''])"
    by code_simp
  have v4: "(if py_lower (path_suffix ''report.png'') = ''.pdf''
           then ([ConvertFromPath (path_str ''report.png'')],
                 convert_from_path sample_env sample_files (path_str ''report.png''))
           else ([ImageOpenPath (path_str ''report.png'')],
                 map_sum id (\<lambda>img. [img])
                   (image_open_path sample_env sample_files (path_str ''report.png''))))
     = ([ImageOpenPath ''report.png''], Inl (LibraryError ''UnidentifiedImageError''))"
    by code_simp
  note t1 = detection_by_origin
    [of sample_env "''https://example.org/report.png''" "''https''" ?r1 "''%PDF|hello|split''"
        sample_files, THEN conjunct1, rule_format, OF h1]
  note t2 = detection_by_origin
    [of sample_env "''https://example.org/paper.pdf''" "''https''" ?r2 "''hello''"
        sample_files, THEN conjunct1, rule_format, OF h2]
  note t3 = detection_by_origin [of sample_env "''./book.PDF''" _ _ _ sample_files,
      THEN conjunct2, rule_format, OF h3]
  note t4 = detection_by_origin [of sample_env "''report.png''" _ _ _ sample_files,
      THEN conjunct2, rule_format, OF h4]
  show ?thesis
    using t1 [unfolded v1] t2 [unfolded v2] t3 [unfolded v3] t4 [unfolded v4] by (intro conjI)
qed

section \<open>Properties of prepare_download\<close>

text \<open>
  C9. The download step writes one file: its name is the temporary name the system
  picks followed by \<open>.md\<close> for Markdown, \<open>.html\<close> for HTML and \<open>.json\<close> for JSON, its
  content is the result encoded as UTF-8, and the file system is otherwise
  unchanged; both download buttons get that name.
\<close>

theorem download_file_extension:
  "prepare_download env files result ''Markdown''
     = ((temp_file_stem env @ ''.md'', temp_file_stem env @ ''.md''),
        files(temp_file_stem env @ ''.md'' \<mapsto> encode_utf8 env result))
   \<and> prepare_download env files result ''HTML''
     = ((temp_file_stem env @ ''.html'', temp_file_stem env @ ''.html''),
        files(temp_file_stem env @ ''.html'' \<mapsto> encode_utf8 env result))
   \<and> prepare_download env files result ''JSON''
     = ((temp_file_stem env @ ''.json'', temp_file_stem env @ ''.json''),
        files(temp_file_stem env @ ''.json'' \<mapsto> encode_utf8 env result))
   \<and> snd (prepare_download env files result export_format)
     = files(temp_file_stem env @ download_ext export_format \<mapsto> encode_utf8 env result)"
  by (simp add: prepare_download_def download_ext_def Let_def)

theorem download_file_extension_witness:
  "fst (prepare_download sample_env sample_files ''# Title'' ''Markdown'')
     = (''/tmp/tmpfile.md'', ''/tmp/tmpfile.md'')
   \<and> snd (prepare_download sample_env sample_files ''# Title'' ''Markdown'') ''/tmp/tmpfile.md''
     = Some ''# Title''
   \<and> snd (prepare_download sample_env sample_files ''# Title'' ''Markdown'') ''report.png''
     = sample_files ''report.png''"
proof -
  have stem: "temp_file_stem sample_env = ''/tmp/tmpfile''" by (simp add: sample_env_def sample_world_def)
  have enc: "encode_utf8 sample_env ''# Title'' = ''# Title''" by (simp add: sample_env_def sample_world_def)
  note t = download_file_extension [of sample_env sample_files "''# Title''" "''Markdown''",
      THEN conjunct1, unfolded stem enc]
  show ?thesis by (simp add: t)
qed

end
